theory Spec2Isabelle
  imports Complex_Main
begin

section \<open>JavaScript values\<close>

text \<open>
  The driver \<^verbatim>\<open>drivers/car/device.js\<close> works on JSON payloads of the vehicle
  cloud and on plain JavaScript objects. A value is one of the JSON kinds, or
  \<^verbatim>\<open>undefined\<close>. A number is the real that a double denotes, or
  \<^verbatim>\<open>NaN\<close>; the infinities are left out (no JSON payload carries them).
  Comparisons of doubles are exact; where the driver subtracts, multiplies or divides,
  the result is rounded by the runtime (\<open>nearest\<close>, below). Objects are association
  lists read from the left; an array index is the property named by its decimal
  numeral, as in JavaScript.
\<close>

datatype jsval =
    Undefined
  | Null
  | Bool bool
  | Num real
  | NaN
  | Str string
  | Obj "(string \<times> jsval) list"
  | Arr "jsval list"

type_synonym obj = "(string \<times> jsval) list"

datatype error =
    TypeError
  | Error string
  | Rejection jsval

text \<open>Truthiness, as \<^verbatim>\<open>if (v)\<close> and \<^verbatim>\<open>!v\<close> see it.\<close>

fun truthy :: "jsval \<Rightarrow> bool" where
  "truthy Undefined = False"
| "truthy Null = False"
| "truthy (Bool b) = b"
| "truthy (Num r) = (r \<noteq> 0)"
| "truthy NaN = False"
| "truthy (Str s) = (s \<noteq> [])"
| "truthy (Obj ps) = True"
| "truthy (Arr xs) = True"

fun nullish :: "jsval \<Rightarrow> bool" where
  "nullish Undefined = True"
| "nullish Null = True"
| "nullish v = False"

text \<open>The decimal numeral of an array index.\<close>

fun dec :: "nat \<Rightarrow> string" where
  "dec n = (if n < 10 then [char_of (48 + n)]
            else dec (n div 10) @ [char_of (48 + n mod 10)])"

declare dec.simps [simp del]

definition index_of :: "string \<Rightarrow> nat \<Rightarrow> nat option" where
  "index_of k n = find (\<lambda>i. dec i = k) [0..<n]"

text \<open>
  \<^verbatim>\<open>v?.k\<close>: reading property \<open>k\<close> of a value that may be nullish. Own
  properties only: none of the names the driver reads is a method of a built-in
  prototype.
\<close>

fun getp :: "jsval \<Rightarrow> string \<Rightarrow> jsval" where
  "getp (Obj ps) k = (case map_of ps k of None \<Rightarrow> Undefined | Some v \<Rightarrow> v)"
| "getp (Arr xs) k =
     (if k = ''length'' then Num (real (length xs))
      else case index_of k (length xs) of None \<Rightarrow> Undefined | Some i \<Rightarrow> xs ! i)"
| "getp (Str s) k =
     (if k = ''length'' then Num (real (length s))
      else case index_of k (length s) of None \<Rightarrow> Undefined | Some i \<Rightarrow> Str [s ! i])"
| "getp v k = Undefined"

text \<open>\<^verbatim>\<open>v.k\<close>: a TypeError on \<^verbatim>\<open>undefined\<close> and \<^verbatim>\<open>null\<close>.\<close>

definition dget :: "jsval \<Rightarrow> string \<Rightarrow> error + jsval" where
  "dget v k = (if nullish v then Inl TypeError else Inr (getp v k))"

text \<open>\<^verbatim>\<open>a || b\<close> and \<^verbatim>\<open>a && b\<close> on values (the second operand already evaluated).\<close>

definition or_js :: "jsval \<Rightarrow> jsval \<Rightarrow> jsval" where
  "or_js a b = (if truthy a then a else b)"

definition and_js :: "jsval \<Rightarrow> jsval \<Rightarrow> jsval" where
  "and_js a b = (if truthy a then b else a)"

text \<open>\<^verbatim>\<open>{ ...v }\<close>: the own enumerable properties of \<open>v\<close>.\<close>

fun spread :: "jsval \<Rightarrow> obj" where
  "spread (Obj ps) = ps"
| "spread (Arr xs) = zip (map dec [0..<length xs]) xs"
| "spread (Str s) = zip (map dec [0..<length s]) (map (\<lambda>c. Str [c]) s)"
| "spread v = []"

text \<open>\<^verbatim>\<open>o.k = v\<close> on an object literal under construction.\<close>

fun setp :: "obj \<Rightarrow> string \<Rightarrow> jsval \<Rightarrow> obj" where
  "setp [] k v = [(k, v)]"
| "setp ((k', v') # ps) k v = (if k' = k then (k, v) # ps else (k', v') # setp ps k v)"

text \<open>\<^verbatim>\<open>s.includes(t)\<close> on strings: \<open>t\<close> occurs in \<open>s\<close> as a contiguous run.\<close>

fun starts_with :: "string \<Rightarrow> string \<Rightarrow> bool" where
  "starts_with s [] = True"
| "starts_with [] (c # t) = False"
| "starts_with (d # s) (c # t) = (d = c \<and> starts_with s t)"

fun contains :: "string \<Rightarrow> string \<Rightarrow> bool" where
  "contains [] t = (t = [])"
| "contains (d # s) t = (starts_with (d # s) t \<or> contains s t)"

text \<open>
  \<^verbatim>\<open>msg.includes(t)\<close> on a value: strings and arrays have the method, calling it
  on anything else is a TypeError.
\<close>

fun includes_js :: "jsval \<Rightarrow> string \<Rightarrow> error + bool" where
  "includes_js (Str s) t = Inr (contains s t)"
| "includes_js (Arr xs) t = Inr (Str t \<in> set xs)"
| "includes_js v t = Inl TypeError"

section \<open>The command queue\<close>

text \<open>
  \<^verbatim>\<open>setupQueue\<close> keeps the pending commands in \<^verbatim>\<open>this.queue\<close>, a sparse array
  read at \<^verbatim>\<open>this.head\<close> and written at \<^verbatim>\<open>this.tail\<close>. The device state holds
  the fields the queue code reads and writes. \<open>session\<close> is the test
  \<^verbatim>\<open>this.vehicle && this.vehicle.vehicleConfig\<close>; \<open>polling\<close> says that the
  interval timer of \<^verbatim>\<open>startPolling\<close> is armed; \<open>tick\<close> counts the remote
  calls made so far and \<open>trace\<close> records what the device did, in order.
\<close>

record item =
  command :: string
  args :: jsval

datatype event =
    Log string
  | Err string
  | Failed string jsval
  | Caught error
  | Exec string jsval
  | Login
  | Available
  | Wait nat

record device =
  disabled :: bool
  queue :: "nat \<rightharpoonup> item"
  head :: nat
  tail :: nat
  queueRunning :: bool
  busy :: bool
  watchDogCounter :: int
  session :: bool
  lastCommand :: "string option"
  loginOnRetry :: bool
  restarting :: bool
  polling :: bool
  tick :: nat
  trace :: "event list"

text \<open>
  The remote side: the \<open>n\<close>-th asynchronous call the device makes (a vehicle
  method, \<^verbatim>\<open>doPoll\<close>, or \<^verbatim>\<open>client.login\<close>) either resolves or rejects with a
  value.
\<close>

datatype outcome = Resolves | Rejects jsval

type_synonym world = "nat \<Rightarrow> outcome"

definition say :: "event list \<Rightarrow> device \<Rightarrow> device" where
  "say es s = s\<lparr>trace := trace s @ es\<rparr>"

text \<open>The slots from head to tail, oldest first; a deleted slot reads \<open>None\<close>.\<close>

definition pending :: "device \<Rightarrow> item option list" where
  "pending s = map (queue s) [head s..<tail s]"

text \<open>
  \<^verbatim>\<open>enQueue\<close> up to the point where it starts the consumer: the new state, and
  whether \<^verbatim>\<open>runQueue\<close> is to be called.
\<close>

definition enQueue_store :: "item \<Rightarrow> device \<Rightarrow> device \<times> bool" where
  "enQueue_store it s =
     (if disabled s then (say [Log ''ignoring command; Homey live link is disabled.''] s, False)
      else if tail s \<ge> 10 then (say [Err ''queue overflow''] s, False)
      else
        let s1 = s\<lparr>queue := (queue s)(tail s \<mapsto> it), tail := tail s + 1\<rparr>
        in if \<not> queueRunning s1 then (s1\<lparr>queueRunning := True\<rparr>, True) else (s1, False))"

definition deQueue :: "device \<Rightarrow> item option \<times> device" where
  "deQueue s =
     (if tail s \<le> head s then (None, s)
      else
        let it = queue s (head s);
            s1 = s\<lparr>queue := (queue s)(head s := None), head := head s + 1\<rparr>;
            s2 = (if head s1 = tail s1 then s1\<lparr>head := 0, tail := 0\<rparr> else s1)
        in (it, s2))"

definition flushQueue :: "device \<Rightarrow> device" where
  "flushQueue s =
     say [Log ''Queue is flushed'']
       (s\<lparr>queue := Map.empty, head := 0, tail := 0, queueRunning := False\<rparr>)"

text \<open>The post-execution wait of a command, in seconds: \<^verbatim>\<open>itemWait[item.command] || 5\<close>.\<close>

definition itemWait :: "string \<Rightarrow> nat" where
  "itemWait c =
     (if c = ''doPoll'' then 5
      else if c = ''start'' then 65
      else if c = ''stop'' then 5
      else if c = ''lock'' then 5
      else if c = ''unlock'' then 5
      else if c = ''setChargeTargets'' then 25
      else if c = ''startCharge'' then 25
      else if c = ''stopCharge'' then 5
      else if c = ''setNavigation'' then 65
      else 5)"

definition res4002 :: string where
  \<open>res4002 = ''"resCode":"4002"''\<close>

definition res4004 :: string where
  \<open>res4004 = ''"resCode":"4004"''\<close>

text \<open>
  \<^verbatim>\<open>msg && (msg.includes('"resCode":"4002"') || msg.includes('"resCode":"4004"'))\<close>
\<close>

definition retryCode :: "jsval \<Rightarrow> error + bool" where
  "retryCode msg =
     (if \<not> truthy msg then Inr False
      else case includes_js msg res4002 of
        Inl e \<Rightarrow> Inl e
      | Inr True \<Rightarrow> Inr True
      | Inr False \<Rightarrow> includes_js msg res4004)"

text \<open>The tail of the rejection handler when no retry has worked.\<close>

definition giveUp :: "item \<Rightarrow> jsval \<Rightarrow> device \<Rightarrow> device" where
  "giveUp it msg s =
     (say [Failed (command it @ '' failed'') msg] s)
       \<lparr>watchDogCounter := watchDogCounter s - 1, busy := False\<rparr>"

text \<open>
  The \<^verbatim>\<open>.catch\<close> handler of the command call. An exception inside the handler
  (reading \<^verbatim>\<open>error.body\<close> of a nullish rejection value, a message without
  \<^verbatim>\<open>includes\<close>, a rejected login) leaves it with the state reached so far.
\<close>

definition errMsg :: "jsval \<Rightarrow> jsval" where
  "errMsg err = or_js (getp err ''body'') (or_js (getp err ''message'') err)"

definition onRejected :: "world \<Rightarrow> item \<Rightarrow> jsval \<Rightarrow> device \<Rightarrow> (error \<times> device) + device" where
  "onRejected w it err s =
     (case dget err ''body'' of
        Inl e \<Rightarrow> Inl (e, s)
      | Inr body \<Rightarrow>
          let msg = errMsg err in
          (case retryCode msg of
             Inl e \<Rightarrow> Inl (e, s)
           | Inr False \<Rightarrow> Inr (giveUp it msg s)
           | Inr True \<Rightarrow>
               let s1 = say [Log (command it @ '' failed. Retrying in 60 seconds''), Wait 60000] s;
                   logged =
                     (if loginOnRetry s1 then
                        (case w (tick s1) of
                           Resolves \<Rightarrow> Inr ((say [Login] s1)\<lparr>tick := tick s1 + 1\<rparr>)
                         | Rejects e \<Rightarrow> Inl (Rejection e, (say [Login] s1)\<lparr>tick := tick s1 + 1\<rparr>))
                      else Inr s1)
               in (case logged of
                     Inl x \<Rightarrow> Inl x
                   | Inr s2 \<Rightarrow>
                       let s3 = (say [Exec (command it) (args it)] s2)\<lparr>tick := tick s2 + 1\<rparr> in
                       (case w (tick s2) of
                          Resolves \<Rightarrow>
                            Inr ((say [Available] s3)\<lparr>watchDogCounter := 6, busy := False\<rparr>)
                        | Rejects e \<Rightarrow> Inr (giveUp it msg s3)))))"

text \<open>
  \<^verbatim>\<open>const msg = error.body || error.message || error\<close> is \<open>errMsg\<close>; the
  read of \<^verbatim>\<open>error.body\<close> is the one that can throw.

  \<^verbatim>\<open>await methodClass[item.command](item.args).then(...).catch(...)\<close>: the
  command is called once; on success the watchdog is reset. Every command the driver
  enqueues names a method of the vehicle client, or \<^verbatim>\<open>doPoll\<close>; what the call
  does is the \<open>world\<close>'s answer.
\<close>

definition execute :: "world \<Rightarrow> item \<Rightarrow> device \<Rightarrow> (error \<times> device) + device" where
  "execute w it s =
     (let s1 = (say [Exec (command it) (args it)] s)\<lparr>tick := tick s + 1\<rparr> in
      case w (tick s) of
        Resolves \<Rightarrow> Inr ((say [Available] s1)\<lparr>watchDogCounter := 6\<rparr>)
      | Rejects err \<Rightarrow> onRejected w it err s1)"

text \<open>The outer \<^verbatim>\<open>catch\<close> of \<^verbatim>\<open>runQueue\<close>.\<close>

definition caught :: "error \<Rightarrow> device \<Rightarrow> device" where
  "caught e s = say [Caught e] (s\<lparr>queueRunning := False, busy := False\<rparr>)"

definition pollItem :: item where
  "pollItem = \<lparr>command = ''doPoll'',
                args = Obj [(''forceOnce'', Bool True), (''logPoll'', Bool False)]\<rparr>"

text \<open>
  \<^verbatim>\<open>this.fixChargerStateTime\<close> is never assigned in the driver, so
  \<^verbatim>\<open>Date.now() - this.fixChargerStateTime\<close> is \<^verbatim>\<open>NaN\<close> and the comparison
  with 30 seconds is false: only the last command decides.
\<close>

definition fixingChargerState :: "device \<Rightarrow> bool" where
  "fixingChargerState s = (lastCommand s = Some ''stopCharge'' \<or> False)"

text \<open>
  One activation of \<^verbatim>\<open>runQueue\<close>: either the consumer stops in a state, or it
  calls \<^verbatim>\<open>runQueue\<close> again (after the wait, or through \<^verbatim>\<open>enQueue\<close> of the
  follow-up poll).
\<close>

datatype activation = Stop device | Continue device

definition runItem :: "world \<Rightarrow> item \<Rightarrow> device \<Rightarrow> activation" where
  "runItem w it s =
     (if \<not> session s then
        Stop (caught (Error ''Ignoring queued command; not logged in'')
                (s\<lparr>watchDogCounter := watchDogCounter s - 2\<rparr>))
      else
        case execute w it (s\<lparr>lastCommand := Some (command it)\<rparr>) of
          Inl (e, s') \<Rightarrow> Stop (caught e s')
        | Inr s' \<Rightarrow> Continue (say [Wait (itemWait (command it) * 1000)] s'))"

definition queueEmpty :: "device \<Rightarrow> activation" where
  "queueEmpty s =
     (let s1 = s\<lparr>queueRunning := False, busy := False\<rparr> in
      if lastCommand s1 \<noteq> Some ''doPoll'' \<and> \<not> fixingChargerState s1 then
        (case enQueue_store pollItem s1 of
           (s2, True) \<Rightarrow> Continue s2
         | (s2, False) \<Rightarrow> Stop s2)
      else Stop s1)"

definition runQueue_once :: "world \<Rightarrow> device \<Rightarrow> activation" where
  "runQueue_once w s =
     (case deQueue (s\<lparr>busy := True, queueRunning := True\<rparr>) of
        (Some it, s1) \<Rightarrow> runItem w it s1
      | (None, s1) \<Rightarrow> queueEmpty s1)"

subsection \<open>The consumer terminates\<close>

text \<open>
  \<^verbatim>\<open>runQueue\<close> calls itself until the queue is drained. Every activation
  that continues lowers a weight of the pending slots (a command counts 3, a poll 1,
  an empty slot 2, plus 2 while a follow-up poll is still due), or leaves it and
  moves the tail towards the head.
\<close>

definition weight :: "item option \<Rightarrow> nat" where
  "weight x = (case x of None \<Rightarrow> 2 | Some it \<Rightarrow> if command it = ''doPoll'' then 1 else 3)"

definition autoPoll :: "device \<Rightarrow> bool" where
  "autoPoll s = (lastCommand s \<noteq> Some ''doPoll'' \<and> \<not> fixingChargerState s)"

definition load :: "device \<Rightarrow> nat" where
  "load s = sum_list (map weight (pending s))
      + (if autoPoll s \<and> (\<forall>x \<in> set (pending s). weight x \<noteq> 1) then 2 else 0)"

definition gap :: "device \<Rightarrow> nat" where
  "gap s = head s - tail s"

lemma pending_say [simp]: "pending (say es s) = pending s"
  by (simp add: pending_def say_def)

lemma deQueue_None:
  "deQueue s = (None, s') \<Longrightarrow>
     tail s \<le> head s \<and> s' = s \<or>
     (\<exists>rest. pending s = None # rest \<and> pending s' = rest \<and>
        lastCommand s' = lastCommand s \<and> (rest = [] \<longrightarrow> head s' = tail s'))"
  unfolding deQueue_def pending_def
  by (auto simp: Let_def upt_conv_Cons split: if_splits)

lemma deQueue_Some:
  "deQueue s = (Some it, s') \<Longrightarrow>
     pending s = Some it # pending s' \<and> lastCommand s' = lastCommand s"
  unfolding deQueue_def pending_def
  by (auto simp: Let_def upt_conv_Cons split: if_splits)

lemma enQueue_store_True:
  "enQueue_store it s = (s', True) \<Longrightarrow>
     lastCommand s' = lastCommand s \<and>
     (if head s \<le> tail s then pending s' = pending s @ [Some it]
      else pending s' = [] \<and> pending s = [] \<and> gap s' < gap s)"
  unfolding enQueue_store_def pending_def gap_def
  by (auto simp: Let_def split: if_splits)

lemma onRejected_frame:
  "onRejected w it err s = Inr s' \<Longrightarrow>
     queue s' = queue s \<and> head s' = head s \<and> tail s' = tail s \<and>
     lastCommand s' = lastCommand s \<and> restarting s' = restarting s"
  unfolding onRejected_def giveUp_def say_def
  by (auto simp: Let_def split: sum.splits bool.splits if_splits outcome.splits)

lemma execute_frame:
  "execute w it s = Inr s' \<Longrightarrow>
     queue s' = queue s \<and> head s' = head s \<and> tail s' = tail s \<and>
     lastCommand s' = lastCommand s \<and> restarting s' = restarting s"
  unfolding execute_def say_def
  by (auto simp: Let_def split: outcome.splits dest!: onRejected_frame)

lemma runItem_Continue:
  "runItem w it s = Continue s' \<Longrightarrow>
     pending s' = pending s \<and> lastCommand s' = Some (command it)"
  unfolding runItem_def
  by (auto simp: pending_def say_def split: if_splits sum.splits prod.splits dest!: execute_frame)

lemma load_runItem:
  assumes "deQueue s = (Some it, s1)" "runItem w it s1 = Continue s'"
  shows "load s' < load s"
proof -
  from assms(1) have p: "pending s = Some it # pending s1"
    by (simp add: deQueue_Some)
  from assms(2) have q: "pending s' = pending s1" "lastCommand s' = Some (command it)"
    by (simp_all add: runItem_Continue)
  show ?thesis
    using p q by (auto simp: load_def weight_def autoPoll_def fixingChargerState_def)
qed

lemma load_queueEmpty:
  assumes "deQueue s = (None, s1)" "queueEmpty s1 = Continue s'"
  shows "load s' < load s \<or> load s' = load s \<and> gap s' < gap s"
proof -
  let ?s2 = "s1\<lparr>queueRunning := False, busy := False\<rparr>"
  from assms(2) have ap: "autoPoll s1" and st: "enQueue_store pollItem ?s2 = (s', True)"
    by (auto simp: queueEmpty_def Let_def autoPoll_def fixingChargerState_def
        split: if_splits prod.splits bool.splits)
  have p2: "pending ?s2 = pending s1" "gap ?s2 = gap s1" "head ?s2 = head s1" "tail ?s2 = tail s1"
    by (simp_all add: pending_def gap_def)
  from enQueue_store_True [OF st] have lc: "lastCommand s' = lastCommand s1"
    by simp
  have wp: "weight (Some pollItem) = 1"
    by (simp add: weight_def pollItem_def)
  from deQueue_None [OF assms(1)] show ?thesis
  proof
    assume a: "tail s \<le> head s \<and> s1 = s"
    then have e: "pending s = []"
      by (simp add: pending_def)
    show ?thesis
    proof (cases "head s1 \<le> tail s1")
      case True
      with enQueue_store_True [OF st] p2 have "pending s' = pending s1 @ [Some pollItem]"
        by simp
      with a e wp ap lc show ?thesis
        by (auto simp: load_def autoPoll_def fixingChargerState_def)
    next
      case False
      with enQueue_store_True [OF st] p2 have "pending s' = []" "gap s' < gap s1"
        by auto
      with a e ap lc show ?thesis
        by (auto simp: load_def autoPoll_def fixingChargerState_def)
    qed
  next
    assume "\<exists>rest. pending s = None # rest \<and> pending s1 = rest \<and>
      lastCommand s1 = lastCommand s \<and> (rest = [] \<longrightarrow> head s1 = tail s1)"
    then obtain rest where r: "pending s = None # rest" "pending s1 = rest"
        "rest = [] \<longrightarrow> head s1 = tail s1"
      by blast
    have "head s1 \<le> tail s1"
    proof (cases "rest = []")
      case True
      with r show ?thesis by simp
    next
      case False
      with r(2) show ?thesis by (auto simp: pending_def)
    qed
    with enQueue_store_True [OF st] p2 have "pending s' = rest @ [Some pollItem]"
      using r by simp
    with r wp show ?thesis
      by (auto simp: load_def weight_def)
  qed
qed

lemma runQueue_once_decreases:
  assumes a: "runQueue_once w s = Continue s'"
  shows "(s', s) \<in> measures [load, gap]"
proof -
  let ?s0 = "s\<lparr>busy := True, queueRunning := True\<rparr>"
  have same: "load ?s0 = load s" "gap ?s0 = gap s"
    by (simp_all add: load_def gap_def pending_def autoPoll_def fixingChargerState_def)
  obtain x s1 where d: "deQueue ?s0 = (x, s1)"
    by (cases "deQueue ?s0")
  show ?thesis
  proof (cases x)
    case None
    with a d have "queueEmpty s1 = Continue s'"
      by (simp add: runQueue_once_def)
    with load_queueEmpty [of ?s0 s1 s'] d None same show ?thesis
      by auto
  next
    case (Some it)
    with a d have "runItem w it s1 = Continue s'"
      by (simp add: runQueue_once_def)
    with load_runItem [of ?s0 it s1 w s'] d Some same show ?thesis
      by auto
  qed
qed

text \<open>
  \<^verbatim>\<open>runQueue\<close>: the consumer, run until it stops. The activations follow one
  another as the driver chains them; what the timer or the user does while the
  consumer waits (a suspension of the \<^verbatim>\<open>async\<close> function) is not part of the
  run, and the waits are recorded as events.
\<close>

function runQueue :: "world \<Rightarrow> device \<Rightarrow> device" where
  "runQueue w s = (case runQueue_once w s of Stop s' \<Rightarrow> s' | Continue s' \<Rightarrow> runQueue w s')"
  by pat_completeness auto
termination
  by (relation "inv_image (measures [load, gap]) snd") (auto dest: runQueue_once_decreases)

declare runQueue.simps [simp del]

text \<open>\<^verbatim>\<open>enQueue\<close>: store the command and start the consumer unless it is running.\<close>

definition enQueue :: "world \<Rightarrow> item \<Rightarrow> device \<Rightarrow> device" where
  "enQueue w it s =
     (case enQueue_store it s of
        (s', True) \<Rightarrow> runQueue w s'
      | (s', False) \<Rightarrow> s')"

subsection \<open>Start values, restart and the polling tick\<close>

text \<open>The fields after \<^verbatim>\<open>initvalues\<close> and \<^verbatim>\<open>setupQueue\<close>, before the client logs in.\<close>

definition initvalues :: "bool \<Rightarrow> device" where
  "initvalues retry =
     \<lparr>disabled = False, queue = Map.empty, head = 0, tail = 0, queueRunning = False,
      busy = False, watchDogCounter = 6, session = False, lastCommand = None,
      loginOnRetry = retry, restarting = False, polling = False, tick = 0, trace = []\<rparr>"

definition stopPolling :: "device \<Rightarrow> device" where
  "stopPolling s = (say [Log ''Stop polling''] s)\<lparr>polling := False\<rparr>"

text \<open>
  \<^verbatim>\<open>restartDevice\<close> up to its wait: guarded by \<^verbatim>\<open>this.restarting\<close>, it stops
  the timer and flushes the queue.
\<close>

definition restartDevice :: "device \<Rightarrow> device" where
  "restartDevice s =
     (if restarting s then s
      else say [Log ''Device will restart''] (flushQueue (stopPolling (s\<lparr>restarting := True\<rparr>))))"

definition timerPoll :: item where
  "timerPoll = \<lparr>command = ''doPoll'',
                 args = Obj [(''forceOnce'', Bool False), (''logPoll'', Bool False)]\<rparr>"

text \<open>The callback of the interval timer in \<^verbatim>\<open>startPolling\<close>.\<close>

definition pollTick :: "world \<Rightarrow> device \<Rightarrow> device" where
  "pollTick w s =
     (if watchDogCounter s \<le> 0 then
        restartDevice (say [Log ''watchdog triggered, restarting device now''] s)
      else if busy s then
        say [Log ''skipping a poll''] (s\<lparr>watchDogCounter := watchDogCounter s - 1\<rparr>)
      else enQueue w timerPoll s)"

section \<open>The status normalizer\<close>

text \<open>
  What \<^verbatim>\<open>mapStatus\<close> takes from outside the driver: the number parser and
  printer of the JavaScript runtime (\<^verbatim>\<open>Number(s)\<close> on a string, with \<open>None\<close>
  for \<^verbatim>\<open>NaN\<close>, and \<^verbatim>\<open>n.toString()\<close>), its rounding (\<open>nearest\<close>: the
  double that an arithmetic operation returns for an exact result), the capability
  values and settings of
  the host, and the \<^verbatim>\<open>geopoint\<close> library, whose constructor throws on
  coordinates it does not accept (\<open>geoDistance\<close> is the distance of two points
  built from four numbers).

  Modelled from the spec: \<^verbatim>\<open>lib/nomatim\<close> and \<^verbatim>\<open>lib/temp_convert\<close> are not
  part of the driver file. \<open>getCarLocString\<close> is the geocoding collaborator
  behind its \<^verbatim>\<open>.catch\<close>: given the record it yields the strings, and a failure
  leaves \<^verbatim>\<open>undefined\<close>, so that the fields are absent. \<open>getTempFromCode\<close>
  turns a temperature code into a temperature; the spec does not say whether it can
  fail, so it may.
\<close>

record env =
  strToNum :: "string \<Rightarrow> real option"
  numToStr :: "real \<Rightarrow> string"
  nearest :: "real \<Rightarrow> real"
  capability :: "string \<Rightarrow> jsval"
  settings :: "string \<Rightarrow> jsval"
  geoDistance :: "real option \<Rightarrow> real option \<Rightarrow> real option \<Rightarrow> real option \<Rightarrow> error + real option"
  getCarLocString :: "obj \<Rightarrow> jsval"
  getTempFromCode :: "jsval \<Rightarrow> error + jsval"

definition num :: "real option \<Rightarrow> jsval" where
  "num x = (case x of None \<Rightarrow> NaN | Some r \<Rightarrow> Num r)"

fun joinComma :: "string list \<Rightarrow> string" where
  "joinComma [] = []"
| "joinComma [s] = s"
| "joinComma (s # t # ss) = s @ '','' @ joinComma (t # ss)"

text \<open>\<^verbatim>\<open>String(v)\<close>, for values without a \<^verbatim>\<open>toString\<close> of their own.\<close>

fun toStr :: "env \<Rightarrow> jsval \<Rightarrow> string" where
  "toStr e Undefined = ''undefined''"
| "toStr e Null = ''null''"
| "toStr e (Bool b) = (if b then ''true'' else ''false'')"
| "toStr e (Num r) = numToStr e r"
| "toStr e NaN = ''NaN''"
| "toStr e (Str s) = s"
| "toStr e (Obj ps) = ''[object Object]''"
| "toStr e (Arr xs) = joinComma (map (\<lambda>x. if nullish x then [] else toStr e x) xs)"

definition toPrimitive :: "env \<Rightarrow> jsval \<Rightarrow> jsval" where
  "toPrimitive e v = (case v of Obj ps \<Rightarrow> Str (toStr e v) | Arr xs \<Rightarrow> Str (toStr e v) | _ \<Rightarrow> v)"

text \<open>\<^verbatim>\<open>Number(v)\<close>.\<close>

definition toNumber :: "env \<Rightarrow> jsval \<Rightarrow> real option" where
  "toNumber e v =
     (case toPrimitive e v of
        Null \<Rightarrow> Some 0
      | Bool b \<Rightarrow> Some (if b then 1 else 0)
      | Num r \<Rightarrow> Some r
      | Str s \<Rightarrow> strToNum e s
      | _ \<Rightarrow> None)"

text \<open>\<^verbatim>\<open>a < b\<close>: by code units when both sides are strings, else on numbers; false with a \<^verbatim>\<open>NaN\<close>.\<close>

definition lt_js :: "env \<Rightarrow> jsval \<Rightarrow> jsval \<Rightarrow> bool" where
  "lt_js e a b =
     (case (toPrimitive e a, toPrimitive e b) of
        (Str x, Str y) \<Rightarrow> lexordp (\<lambda>c d. (of_char c :: nat) < of_char d) x y
      | (x, y) \<Rightarrow>
          (case (toNumber e x, toNumber e y) of
             (Some p, Some q) \<Rightarrow> p < q
           | _ \<Rightarrow> False))"

definition gt_js :: "env \<Rightarrow> jsval \<Rightarrow> jsval \<Rightarrow> bool" where
  "gt_js e a b = lt_js e b a"

text \<open>
  \<^verbatim>\<open>a - b\<close>, \<^verbatim>\<open>a * c\<close> and \<^verbatim>\<open>a / c\<close> on doubles: the exact result,
  rounded. A double minus itself is 0 under every rounding. \<^verbatim>\<open>Math.abs\<close> and
  \<^verbatim>\<open>Math.round\<close> are exact.
\<close>

definition sub_js :: "env \<Rightarrow> jsval \<Rightarrow> jsval \<Rightarrow> real option" where
  "sub_js e a b =
     (case (toNumber e a, toNumber e b) of
        (Some p, Some q) \<Rightarrow> Some (if p = q then 0 else nearest e (p - q))
      | _ \<Rightarrow> None)"

definition mul_js :: "env \<Rightarrow> real option \<Rightarrow> real \<Rightarrow> real option" where
  "mul_js e x c = map_option (\<lambda>r. nearest e (r * c)) x"

definition div_js :: "env \<Rightarrow> real option \<Rightarrow> real \<Rightarrow> real option" where
  "div_js e x c = map_option (\<lambda>r. nearest e (r / c)) x"

definition abs_js :: "real option \<Rightarrow> real option" where
  "abs_js x = map_option abs x"

definition round_js :: "real option \<Rightarrow> real option" where
  "round_js x = map_option (\<lambda>r. of_int \<lfloor>r + 1 / 2\<rfloor>) x"

definition exceeds :: "real option \<Rightarrow> real \<Rightarrow> bool" where
  "exceeds x c = (case x of None \<Rightarrow> False | Some r \<Rightarrow> r > c)"

text \<open>\<^verbatim>\<open>a?.k1?.k2 ...\<close>\<close>

definition path :: "jsval \<Rightarrow> string list \<Rightarrow> jsval" where
  "path v ks = foldl getp v ks"

text \<open>\<^verbatim>\<open>speed > 255 ? 0 : speed\<close>\<close>

definition capSpeed :: "env \<Rightarrow> jsval \<Rightarrow> jsval" where
  "capSpeed e speed = (if gt_js e speed (Num 255) then Num 0 else speed)"

text \<open>
  \<^verbatim>\<open>distance(location)\<close>: the coordinates of the record and of the settings go
  through \<^verbatim>\<open>Number\<close> into \<^verbatim>\<open>GeoPoint\<close>; the distance is rounded to two places.
\<close>

definition distance :: "env \<Rightarrow> obj \<Rightarrow> error + real option" where
  "distance e location =
     (case geoDistance e (toNumber e (getp (Obj location) ''latitude''))
             (toNumber e (getp (Obj location) ''longitude''))
             (toNumber e (settings e ''lat'')) (toNumber e (settings e ''lon'')) of
        Inl x \<Rightarrow> Inl x
      | Inr d \<Rightarrow> Inr (div_js e (round_js (mul_js e d 100)) 100))"

text \<open>
  The lines both location blocks share: \<^verbatim>\<open>meter_distance\<close>, then the reverse
  geocoding, whose rejection is caught and leaves \<^verbatim>\<open>undefined\<close>.
\<close>

definition locate :: "env \<Rightarrow> obj \<Rightarrow> error + obj" where
  "locate e m =
     (case distance e m of
        Inl x \<Rightarrow> Inl x
      | Inr d \<Rightarrow>
          let m1 = setp m ''meter_distance'' (num (div_js e (round_js (mul_js e d 10)) 10));
              carLocString = getCarLocString e m1;
              m2 = setp m1 ''location'' (getp carLocString ''local'');
              m3 = setp m2 ''address'' (getp carLocString ''address'')
          in Inr m3)"

text \<open>The first block of \<^verbatim>\<open>mapStatus\<close>: an old type full status.\<close>

definition legacyFull :: "env \<Rightarrow> jsval \<Rightarrow> obj \<Rightarrow> error + obj" where
  "legacyFull e sts m =
     (let m1 = setp m ''measure_odo'' (path sts [''odometer'', ''value'']);
          m2 = setp m1 ''latitude'' (path sts [''vehicleLocation'', ''coord'', ''lat'']);
          m3 = setp m2 ''longitude'' (path sts [''vehicleLocation'', ''coord'', ''lon'']);
          speed = path sts [''vehicleLocation'', ''speed'', ''value''];
          m4 = setp m3 ''measure_speed'' (capSpeed e speed)
      in locate e m4)"

text \<open>
  \<^verbatim>\<open>if (charger && !charge) charger += 2\<close>: \<^verbatim>\<open>+\<close> concatenates when the
  plug code is a string (or an object or array, which turn into strings first).
\<close>

definition plus2 :: "env \<Rightarrow> jsval \<Rightarrow> jsval" where
  "plus2 e v =
     (case toPrimitive e v of
        Str s \<Rightarrow> Str (s @ ''2'')
      | p \<Rightarrow> num (map_option (\<lambda>r. r + 2) (toNumber e p)))"

definition evChargingState :: "env \<Rightarrow> jsval \<Rightarrow> jsval \<Rightarrow> string" where
  "evChargingState e charger0 charge =
     (let charger = (if truthy charger0 \<and> \<not> truthy charge then plus2 e charger0 else charger0)
      in if charger = Num 1 \<or> charger = Num 2 then ''plugged_in_charging''
         else if charger = Num 3 \<or> charger = Num 4 then ''plugged_in''
         else ''plugged_out'')"

text \<open>\<^verbatim>\<open>Object.keys(v)\<close>: a TypeError on \<^verbatim>\<open>undefined\<close> and \<^verbatim>\<open>null\<close>.\<close>

definition keys_js :: "jsval \<Rightarrow> error + string list" where
  "keys_js v = (if nullish v then Inl TypeError else Inr (remdups (map fst (spread v))))"

text \<open>
  \<^verbatim>\<open>Object.keys(sts.doorOpen).reduce((closedAccu, door) =>
  closedAccu || !sts.doorOpen[door], true)\<close>
\<close>

definition doorsClosed :: "jsval \<Rightarrow> error + jsval" where
  "doorsClosed doorOpen =
     (case keys_js doorOpen of
        Inl x \<Rightarrow> Inl x
      | Inr ks \<Rightarrow>
          Inr (foldl (\<lambda>closedAccu door. or_js closedAccu (Bool (\<not> truthy (getp doorOpen door))))
                 (Bool True) ks))"

text \<open>
  \<^verbatim>\<open>sts.doorLock && !sts.trunkOpen && !sts.hoodOpen && Object.keys(...)...\<close>: the
  keys are taken only when the three operands before are truthy.
\<close>

definition closedLocked :: "jsval \<Rightarrow> error + jsval" where
  "closedLocked sts =
     (if \<not> truthy (getp sts ''doorLock'') then Inr (getp sts ''doorLock'')
      else if truthy (getp sts ''trunkOpen'') then Inr (Bool False)
      else if truthy (getp sts ''hoodOpen'') then Inr (Bool False)
      else doorsClosed (getp sts ''doorOpen''))"

text \<open>
  \<^verbatim>\<open>list.find((list) => list.plugType === n)?.targetSOClevel.toString()\<close>: only an
  array has \<^verbatim>\<open>find\<close>; the callback reads a property of each element.
\<close>

fun find_plug :: "jsval list \<Rightarrow> real \<Rightarrow> error + jsval" where
  "find_plug [] n = Inr Undefined"
| "find_plug (x # xs) n =
     (case dget x ''plugType'' of
        Inl err \<Rightarrow> Inl err
      | Inr t \<Rightarrow> if t = Num n then Inr x else find_plug xs n)"

definition callToString :: "env \<Rightarrow> jsval \<Rightarrow> error + jsval" where
  "callToString e v = (if nullish v then Inl TypeError else Inr (Str (toStr e v)))"

definition targetSOC :: "env \<Rightarrow> jsval \<Rightarrow> real \<Rightarrow> error + jsval" where
  "targetSOC e targetSOClist n =
     (case targetSOClist of
        Arr xs \<Rightarrow>
          (case find_plug xs n of
             Inl err \<Rightarrow> Inl err
           | Inr found \<Rightarrow>
               if nullish found then Inr Undefined
               else callToString e (getp found ''targetSOClevel''))
      | _ \<Rightarrow> Inl TypeError)"

definition chargeTargets :: "env \<Rightarrow> jsval \<Rightarrow> obj \<Rightarrow> error + obj" where
  "chargeTargets e sts m =
     (let targetSOClist = path sts [''evStatus'', ''reservChargeInfos'', ''targetSOClist''] in
      if truthy targetSOClist then
        (case targetSOC e targetSOClist 1 of
           Inl err \<Rightarrow> Inl err
         | Inr slow \<Rightarrow>
             (case targetSOC e targetSOClist 0 of
                Inl err \<Rightarrow> Inl err
              | Inr fast \<Rightarrow>
                  Inr (setp (setp m ''charge_target_slow'' slow) ''charge_target_fast'' fast)))
      else Inr m)"

definition targetTemperature :: "env \<Rightarrow> jsval \<Rightarrow> error + jsval" where
  "targetTemperature e sts =
     (if truthy (getp sts ''airCtrlOn'') then
        (case dget (getp sts ''airTemp'') ''value'' of
           Inl err \<Rightarrow> Inl err
         | Inr code \<Rightarrow> getTempFromCode e code)
      else Inr (capability e ''target_temperature''))"

definition measureRange :: "env \<Rightarrow> jsval \<Rightarrow> jsval" where
  "measureRange e sts =
     (let r = or_js (path sts [''evStatus'', ''drvDistance'', ''0'', ''rangeByFuel'',
                              ''totalAvailableRange'', ''value''])
                    (path sts [''dte'', ''value''])
      in if r = Undefined \<or> lt_js e r (Num 0) then Null else r)"

definition alarmBat :: "env \<Rightarrow> jsval \<Rightarrow> jsval \<Rightarrow> jsval" where
  "alarmBat e soc12 socEV =
     Bool (lt_js e soc12 (settings e ''batteryAlarmLevel'') \<or>
           lt_js e socEV (settings e ''EVbatteryAlarmLevel''))"

text \<open>The second block: an old type simple or full status.\<close>

definition legacyStatus :: "env \<Rightarrow> jsval \<Rightarrow> obj \<Rightarrow> error + obj" where
  "legacyStatus e sts m =
     (let charge = path sts [''evStatus'', ''batteryCharge''];
          state = evChargingState e (path sts [''evStatus'', ''batteryPlugin'']) charge;
          m1 = setp m ''climate_control'' (getp sts ''airCtrlOn'')
      in case targetTemperature e sts of
           Inl err \<Rightarrow> Inl err
         | Inr temp \<Rightarrow>
             let m2 = setp m1 ''target_temperature'' temp;
                 m3 = setp m2 ''locked'' (getp sts ''doorLock'');
                 m4 = setp m3 ''defrost'' (getp sts ''defrost'');
                 m5 = setp m4 ''engine'' (getp sts ''engine'')
             in case closedLocked sts of
                  Inl err \<Rightarrow> Inl err
                | Inr cl \<Rightarrow>
                    let m6 = setp m5 ''closed_locked'' cl;
                        m7 = setp m6 ''alarm_tire_pressure''
                               (Bool (truthy (path sts [''tirePressureLamp'', ''tirePressureLampAll''])));
                        m8 = setp m7 ''measure_battery.12V'' (path sts [''battery'', ''batSoc'']);
                        m9 = setp m8 ''measure_range'' (measureRange e sts);
                        m10 = setp m9 ''measure_battery'' (path sts [''evStatus'', ''batteryStatus'']);
                        m11 = setp m10 ''measure_power.charge'' Null;
                        m12 = setp m11 ''meter_power.fuel_economy'' Null;
                        m13 = setp m12 ''charge'' charge
                    in case chargeTargets e sts m13 of
                         Inl err \<Rightarrow> Inl err
                       | Inr m14 \<Rightarrow>
                           let m15 = setp m14 ''ev_charging_state'' (Str state);
                               m16 = setp m15 ''alarm_bat''
                                       (alarmBat e (path sts [''battery'', ''batSoc''])
                                          (path sts [''evStatus'', ''batteryStatus'']));
                               m17 = setp m16 ''Date'' (getp sts ''time'')
                           in Inr m17)"

text \<open>
  \<^verbatim>\<open>typeof targetTemp === 'string' && !Number.isNaN(Number(targetTemp))\<close>: a
  numeric string becomes its number.
\<close>

definition numericTemp :: "env \<Rightarrow> jsval \<Rightarrow> jsval" where
  "numericTemp e t =
     (case t of
        Str s \<Rightarrow> (case strToNum e s of None \<Rightarrow> t | Some r \<Rightarrow> Num r)
      | _ \<Rightarrow> t)"

text \<open>
  \<^verbatim>\<open>[ ... ].filter(Boolean)\<close> and \<^verbatim>\<open>.every((d) => d.Open === 0)\<close>: the objects
  that are present must each report 0.
\<close>

definition present :: "jsval list \<Rightarrow> jsval list" where
  "present vs = filter truthy vs"

definition everyZero :: "string \<Rightarrow> jsval list \<Rightarrow> bool" where
  "everyZero k vs = list_all (\<lambda>d. getp d k = Num 0) vs"

text \<open>
  \<^verbatim>\<open>a?.b.c\<close>: nothing is read when \<open>a\<close> is nullish, otherwise \<open>a.b\<close> must
  not be nullish.
\<close>

definition thenDot :: "jsval \<Rightarrow> string \<Rightarrow> string \<Rightarrow> error + jsval" where
  "thenDot a b c = (if nullish a then Inr Undefined else dget (getp a b) c)"

definition thenToString :: "env \<Rightarrow> jsval \<Rightarrow> string \<Rightarrow> error + jsval" where
  "thenToString e a b = (if nullish a then Inr Undefined else callToString e (getp a b))"

text \<open>The third block: a new type status.\<close>

definition currentStatus :: "env \<Rightarrow> jsval \<Rightarrow> obj \<Rightarrow> error + obj" where
  "currentStatus e sts m =
     (let m1 = setp m ''measure_odo'' (path sts [''Drivetrain'', ''Odometer'']);
          m2 = setp m1 ''latitude'' (path sts [''Location'', ''GeoCoord'', ''Latitude'']);
          m3 = setp m2 ''longitude'' (path sts [''Location'', ''GeoCoord'', ''Longitude'']);
          speed = path sts [''Location'', ''Speed'', ''Value''];
          m4 = setp m3 ''measure_speed'' (capSpeed e speed)
      in case locate e m4 of
           Inl err \<Rightarrow> Inl err
         | Inr m5 \<Rightarrow>
             let m6 = setp m5 ''measure_power.charge''
                        (num (mul_js e (toNumber e (path sts [''Green'', ''Electric'', ''SmartGrid'',
                                                           ''RealTimePower''])) 1000));
                 m7 = setp m6 ''meter_power.fuel_economy''
                        (path sts [''Drivetrain'', ''FuelSystem'', ''AverageFuelEconomy'', ''Drive'']);
                 charge = Bool (truthy (path sts [''Green'', ''ChargingInformation'', ''Charging'',
                                                   ''RemainTime'']));
                 state = evChargingState e
                           (path sts [''Green'', ''ChargingInformation'', ''ConnectorFastening'',
                                      ''State'']) charge;
                 targetTemp = numericTemp e
                                (path sts [''Cabin'', ''HVAC'', ''Row1'', ''Driver'', ''Temperature'',
                                           ''Value'']);
                 m8 = setp m7 ''climate_control'' (Bool (\<not> (targetTemp = Str ''OFF'')));
                 m9 = setp m8 ''target_temperature''
                        (if targetTemp = Str ''OFF'' then capability e ''target_temperature''
                         else targetTemp);
                 m10 = setp m9 ''defrost''
                         (Bool (truthy (path sts [''Body'', ''Windshield'', ''Front'', ''Defog'', ''State''])
                              \<or> truthy (path sts [''Body'', ''Windshield'', ''Rear'', ''Defog'', ''State''])));
                 doors = present [path sts [''Cabin'', ''Door'', ''Row1'', ''Driver''],
                                  path sts [''Cabin'', ''Door'', ''Row1'', ''Passenger''],
                                  path sts [''Cabin'', ''Door'', ''Row2'', ''Left''],
                                  path sts [''Cabin'', ''Door'', ''Row2'', ''Right'']];
                 allDoorsClosed = everyZero ''Open'' doors;
                 allDoorsLocked = everyZero ''Lock'' doors;
                 windows = present [path sts [''Cabin'', ''Window'', ''Row1'', ''Driver''],
                                    path sts [''Cabin'', ''Window'', ''Row1'', ''Passenger''],
                                    path sts [''Cabin'', ''Window'', ''Row2'', ''Left''],
                                    path sts [''Cabin'', ''Window'', ''Row2'', ''Right'']];
                 allWindowsClosed = everyZero ''Open'' windows;
                 trunkClosed = (path sts [''Body'', ''Trunk'', ''Open''] = Num 0);
                 hoodClosed = (path sts [''Body'', ''Hood'', ''Open''] = Num 0);
                 sunroofClosed = (path sts [''Body'', ''Sunroof'', ''Glass'', ''Open''] = Num 0);
                 m11 = setp m10 ''locked'' (Bool allDoorsLocked);
                 m12 = setp m11 ''closed_locked''
                         (Bool (allDoorsClosed \<and> allDoorsLocked \<and> allWindowsClosed \<and>
                                trunkClosed \<and> hoodClosed \<and> sunroofClosed));
                 m13 = setp m12 ''engine'' (Bool (truthy (getp sts ''DrivingReady'')));
                 m14 = setp m13 ''alarm_tire_pressure''
                         (Bool (truthy (path sts [''battery'', ''Axle'', ''Tire'', ''PressureLow''])));
                 m15 = setp m14 ''measure_battery.12V'' (path sts [''Electronics'', ''Battery'', ''Level''])
             in case thenDot (path sts [''Drivetrain'', ''FuelSystem'']) ''DTE'' ''Total'' of
                  Inl err \<Rightarrow> Inl err
                | Inr dte \<Rightarrow>
                    let m16 = setp m15 ''measure_range'' dte in
                    (case thenDot (path sts [''Green'', ''BatteryManagement'']) ''BatteryRemain'' ''Ratio'' of
                       Inl err \<Rightarrow> Inl err
                     | Inr ratio \<Rightarrow>
                         let m17 = setp m16 ''measure_battery'' ratio;
                             m18 = setp m17 ''charge'' charge
                         in (case thenToString e (path sts [''Green'', ''ChargingInformation'', ''TargetSoC''])
                                    ''Standard'' of
                               Inl err \<Rightarrow> Inl err
                             | Inr slow \<Rightarrow>
                                 let m19 = setp m18 ''charge_target_slow'' slow in
                                 (case thenToString e
                                         (path sts [''Green'', ''ChargingInformation'', ''TargetSoC''])
                                         ''Quick'' of
                                    Inl err \<Rightarrow> Inl err
                                  | Inr fast \<Rightarrow>
                                      let m20 = setp m19 ''charge_target_fast'' fast;
                                          m21 = setp m20 ''ev_charging_state'' (Str state);
                                          m22 = setp m21 ''alarm_bat''
                                                  (alarmBat e (getp (Obj m21) ''measure_battery.12V'')
                                                     (getp (Obj m21) ''measure_battery''));
                                          m23 = setp m22 ''Date'' (getp sts ''Date'')
                                      in Inr m23))))"

text \<open>
  \<^verbatim>\<open>mapStatus\<close>: nothing for a falsy status; otherwise the three blocks in
  turn, each behind its test, the second and third on the inner
  \<^verbatim>\<open>vehicleStatus\<close> when the first has run. A thrown error rejects the promise.
\<close>

definition isFull :: "jsval \<Rightarrow> bool" where
  "isFull status = truthy (getp (Obj (spread status)) ''vehicleStatus'')"

text \<open>The value of \<^verbatim>\<open>sts\<close> after the first block.\<close>

definition statusBody :: "jsval \<Rightarrow> jsval" where
  "statusBody status =
     (if isFull status then Obj (spread (getp status ''vehicleStatus''))
      else Obj (spread status))"

definition mapStatus :: "env \<Rightarrow> jsval \<Rightarrow> error + obj" where
  "mapStatus e status =
     (if \<not> truthy status then Inr []
      else
        case (if isFull status then legacyFull e (Obj (spread status)) [] else Inr []) of
          Inl err \<Rightarrow> Inl err
        | Inr m1 \<Rightarrow>
            let sts = statusBody status in
            (case (if truthy (getp sts ''time'') then legacyStatus e sts m1 else Inr m1) of
               Inl err \<Rightarrow> Inl err
             | Inr m2 \<Rightarrow>
                 if truthy (getp sts ''Date'') then currentStatus e sts m2 else Inr m2))"

section \<open>The activity classifier\<close>

text \<open>
  The literals \<^verbatim>\<open>0.0001\<close> and \<^verbatim>\<open>0.0003\<close> of the classifier, as the doubles
  they are read as: the first lies just above a ten-thousandth, the second just below
  three ten-thousandths.
\<close>

definition deg0001 :: real where
  "deg0001 = 7378697629483821 / 2 ^ 66"

definition deg0003 :: real where
  "deg0003 = 5534023222112865 / 2 ^ 64"

text \<open>
  \<^verbatim>\<open>isMoving(info)\<close>: the previous location is the pair of capability values.
\<close>

definition isMoving :: "env \<Rightarrow> obj \<Rightarrow> bool" where
  "isMoving e info =
     (let prevLat = capability e ''latitude'';
          prevLon = capability e ''longitude'';
          speed = getp (Obj info) ''measure_speed''
      in if \<not> truthy speed \<or> \<not> truthy prevLat then False
         else gt_js e speed (Num 0) \<or>
              (exceeds (abs_js (sub_js e (getp (Obj info) ''latitude'') prevLat)) deg0001 \<or>
               exceeds (abs_js (sub_js e (getp (Obj info) ''longitude'') prevLon)) deg0001))"

text \<open>
  \<^verbatim>\<open>isParking(info)\<close>, with \<^verbatim>\<open>this.parkLocation\<close> as a parameter; reading
  its latitude is the only step that can throw.
\<close>

definition isParking :: "env \<Rightarrow> jsval \<Rightarrow> obj \<Rightarrow> error + bool" where
  "isParking e parkLocation info =
     (let parked = \<not> truthy (getp (Obj info) ''engine'') in
      if \<not> parked then Inr False
      else
        case dget parkLocation ''latitude'' of
          Inl err \<Rightarrow> Inl err
        | Inr parkLat \<Rightarrow>
            let newLocation =
                  (exceeds (abs_js (sub_js e (getp (Obj info) ''latitude'') parkLat)) deg0003 \<or>
                   exceeds (abs_js (sub_js e (getp (Obj info) ''longitude'')
                                      (getp parkLocation ''longitude''))) deg0003)
            in Inr (parked \<and> newLocation))"

section \<open>The odometer repair of a poll\<close>

text \<open>
  In \<^verbatim>\<open>doPoll\<close>, after \<^verbatim>\<open>mapStatus\<close>:
  \<^verbatim>\<open>if (!stsMapped.measure_odo) stsMapped.measure_odo = { ...this?.lastStatus?.measure_odo }\<close>;
  the result becomes \<^verbatim>\<open>this.lastStatus\<close>.
\<close>

definition repairOdo :: "jsval \<Rightarrow> obj \<Rightarrow> obj" where
  "repairOdo lastStatus stsMapped =
     (if \<not> truthy (getp (Obj stsMapped) ''measure_odo'') then
        setp stsMapped ''measure_odo'' (Obj (spread (getp lastStatus ''measure_odo'')))
      else stsMapped)"

text \<open>
  An environment to evaluate examples in: the home location is set, \<^verbatim>\<open>GeoPoint\<close>
  throws on a coordinate that is not a number, as the library does, and measures
  every distance as 0; no string is a number, results that are doubles stay as they
  are, the geocoder finds nothing and a temperature code is its own temperature.
\<close>

definition quiet :: "(string \<Rightarrow> jsval) \<Rightarrow> env" where
  "quiet caps =
     \<lparr>strToNum = (\<lambda>s. None), numToStr = (\<lambda>r. ''?''), nearest = (\<lambda>r. r),
      capability = caps,
      settings = (\<lambda>k. if k = ''lat'' then Num 52 else if k = ''lon'' then Num 5 else Undefined),
      geoDistance =
        (\<lambda>a b c d.
           if a = None then Inl (Error ''Invalid latitude'')
           else if b = None then Inl (Error ''Invalid longitude'')
           else if c = None then Inl (Error ''Invalid latitude'')
           else if d = None then Inl (Error ''Invalid longitude'')
           else Inr (Some 0)),
      getCarLocString = (\<lambda>m. Undefined), getTempFromCode = (\<lambda>c. Inr c)\<rparr>"

section \<open>Properties of the command queue\<close>

subsection \<open>The slot table\<close>

lemma enQueue_store_accept:
  assumes "\<not> disabled s" "tail s < 10" "head s \<le> tail s"
  shows "pending (fst (enQueue_store it s)) = pending s @ [Some it]"
    and "tail (fst (enQueue_store it s)) - head (fst (enQueue_store it s)) = tail s - head s + 1"
    and "trace (fst (enQueue_store it s)) = trace s"
  using assms unfolding enQueue_store_def pending_def
  by (auto simp: Let_def)

lemma enQueue_overflow:
  assumes "\<not> disabled s" "10 \<le> tail s"
  shows "enQueue w it s = say [Err ''queue overflow''] s"
  using assms by (simp add: enQueue_def enQueue_store_def)

lemma enQueue_running:
  assumes "queueRunning s"
  shows "enQueue w it s = fst (enQueue_store it s)"
  using assms by (simp add: enQueue_def enQueue_store_def Let_def)

lemma deQueue_front:
  assumes "head s < tail s"
  shows "fst (deQueue s) = hd (pending s)" and "pending (snd (deQueue s)) = tl (pending s)"
  using assms unfolding deQueue_def pending_def
  by (auto simp: Let_def upt_conv_Cons)

lemma deQueue_empty:
  assumes "tail s \<le> head s"
  shows "deQueue s = (None, s)"
  using assms by (simp add: deQueue_def)


lemma queue_indices:
  assumes "head s \<le> tail s"
  shows "head (fst (enQueue_store it s)) \<le> tail (fst (enQueue_store it s))"
    and "head (snd (deQueue s)) \<le> tail (snd (deQueue s))"
  using assms by (auto simp: enQueue_store_def deQueue_def say_def Let_def)

lemma enQueue_fill:
  assumes "\<not> disabled s" "queueRunning s" "tail s + n \<le> 10"
  shows "tail (((\<lambda>s. enQueue w it s) ^^ n) s) = tail s + n \<and>
         head (((\<lambda>s. enQueue w it s) ^^ n) s) = head s \<and>
         \<not> disabled (((\<lambda>s. enQueue w it s) ^^ n) s) \<and>
         queueRunning (((\<lambda>s. enQueue w it s) ^^ n) s) \<and>
         trace (((\<lambda>s. enQueue w it s) ^^ n) s) = trace s"
  using assms
proof (induction n)
  case 0
  then show ?case by simp
next
  case (Suc n)
  let ?t = "((\<lambda>s. enQueue w it s) ^^ n) s"
  from Suc have t: "tail ?t = tail s + n" "head ?t = head s" "\<not> disabled ?t" "queueRunning ?t"
      "trace ?t = trace s"
    by simp_all
  from Suc.prems t have "tail ?t < 10" by simp
  with t show ?case
    by (simp add: enQueue_def enQueue_store_def Let_def)
qed


text \<open>
  C2, as stated: while the size (tail minus head) is below 10, an enqueue on a device
  that is not disabled appends the command. The table tests the tail, not the size:
  after one command has been taken from a full table the size is 9, and the next
  command is still dropped as an overflow.
\<close>

theorem enQueue_below_capacity_dropped:
  "(let it = \<lparr>command = ''lock'', args = Undefined\<rparr>;
        w = (\<lambda>n. Resolves);
        s1 = fst (enQueue_store it (initvalues False));
        s2 = snd (deQueue (s1\<lparr>busy := True, queueRunning := True\<rparr>));
        s3 = ((\<lambda>s. enQueue w it s) ^^ 10) s2;
        s4 = snd (deQueue s3)
    in int (tail s4) - int (head s4) = 9 \<and> \<not> disabled s4 \<and>
       pending (enQueue w it s4) = pending s4 \<and>
       trace (enQueue w it s4) = trace s4 @ [Err ''queue overflow''])"
proof -
  define it where "it = \<lparr>command = ''lock'', args = Undefined\<rparr>"
  define w :: world where "w = (\<lambda>n. Resolves)"
  define s1 where "s1 = fst (enQueue_store it (initvalues False))"
  define s2 where "s2 = snd (deQueue (s1\<lparr>busy := True, queueRunning := True\<rparr>))"
  define s3 where "s3 = ((\<lambda>s. enQueue w it s) ^^ 10) s2"
  define s4 where "s4 = snd (deQueue s3)"
  have a2: "\<not> disabled s2" "queueRunning s2" "tail s2 = 0" "head s2 = 0"
    by (simp_all add: s2_def s1_def initvalues_def enQueue_store_def deQueue_def Let_def)
  from enQueue_fill [of s2 10 w it] a2
  have a3: "tail s3 = 10" "head s3 = 0" "\<not> disabled s3"
    by (simp_all add: s3_def)
  then have a4: "tail s4 = 10" "head s4 = 1" "\<not> disabled s4"
    by (simp_all add: s4_def deQueue_def Let_def)
  then have "enQueue w it s4 = say [Err ''queue overflow''] s4"
    by (simp add: enQueue_overflow)
  with a4 have "int (tail s4) - int (head s4) = 9 \<and> \<not> disabled s4 \<and>
       pending (enQueue w it s4) = pending s4 \<and>
       trace (enQueue w it s4) = trace s4 @ [Err ''queue overflow'']"
    by (simp add: say_def pending_def)
  then show ?thesis
    unfolding Let_def s4_def s3_def s2_def s1_def w_def it_def .
qed


text \<open>
  C2, amended: \<^verbatim>\<open>enQueue\<close> appends at the end of the pending slots and adds 1
  to the size while the tail is below 10 (on a device that is not disabled, with the
  head not beyond the tail); with the consumer running it does nothing else; at a
  tail of 10 or more (so at size 10) it leaves the table as it is and logs the
  overflow, returning normally. \<^verbatim>\<open>deQueue\<close> hands out the oldest pending slot and
  leaves the rest in order, and reports an empty table as \<^verbatim>\<open>undefined\<close>. Both
  keep the head at or below the tail, so the statement carries over to every sequence
  of the two operations.
\<close>

theorem enQueue_deQueue_fifo:
  "(\<not> disabled s \<and> tail s < 10 \<and> head s \<le> tail s \<longrightarrow>
      pending (fst (enQueue_store it s)) = pending s @ [Some it] \<and>
      tail (fst (enQueue_store it s)) - head (fst (enQueue_store it s)) = tail s - head s + 1 \<and>
      trace (fst (enQueue_store it s)) = trace s) \<and>
   (queueRunning s \<longrightarrow> enQueue w it s = fst (enQueue_store it s)) \<and>
   (\<not> disabled s \<and> 10 \<le> tail s \<longrightarrow> enQueue w it s = say [Err ''queue overflow''] s) \<and>
   (head s < tail s \<longrightarrow>
      fst (deQueue s) = hd (pending s) \<and> pending (snd (deQueue s)) = tl (pending s)) \<and>
   (tail s \<le> head s \<longrightarrow> deQueue s = (None, s)) \<and>
   (head s \<le> tail s \<longrightarrow>
      head (fst (enQueue_store it s)) \<le> tail (fst (enQueue_store it s)) \<and>
      head (snd (deQueue s)) \<le> tail (snd (deQueue s)))"
  using enQueue_store_accept [of s it] enQueue_running [of s w it] enQueue_overflow [of s w it]
    deQueue_front [of s] deQueue_empty [of s] queue_indices(1) [of s it] queue_indices(2) [of s]
  by blast


theorem enQueue_deQueue_fifo_witness:
  "(let a = \<lparr>command = ''lock'', args = Undefined\<rparr>;
        b = \<lparr>command = ''unlock'', args = Undefined\<rparr>;
        s = (initvalues False)\<lparr>queue := [0 \<mapsto> a], tail := 1, queueRunning := True\<rparr>;
        t = (initvalues False)\<lparr>tail := 10\<rparr>
    in pending (enQueue (\<lambda>n. Resolves) b s) = [Some a, Some b] \<and>
       fst (deQueue s) = Some a \<and> pending (snd (deQueue s)) = [] \<and>
       enQueue (\<lambda>n. Resolves) b t = say [Err ''queue overflow''] t \<and>
       deQueue (initvalues False) = (None, initvalues False))"
proof -
  define a where "a = \<lparr>command = ''lock'', args = Undefined\<rparr>"
  define b where "b = \<lparr>command = ''unlock'', args = Undefined\<rparr>"
  define s where "s = (initvalues False)\<lparr>queue := [0 \<mapsto> a], tail := 1, queueRunning := True\<rparr>"
  define t where "t = (initvalues False)\<lparr>tail := 10\<rparr>"
  have hs: "\<not> disabled s" "tail s < 10" "head s \<le> tail s" "queueRunning s" "head s < tail s"
    by (simp_all add: s_def initvalues_def)
  have ps: "pending s = [Some a]"
    by (simp add: s_def initvalues_def pending_def)
  have ht: "\<not> disabled t" "10 \<le> tail t"
    by (simp_all add: t_def initvalues_def)
  have hi: "tail (initvalues False) \<le> head (initvalues False)"
    by (simp add: initvalues_def)
  from enQueue_deQueue_fifo [of s b "\<lambda>n. Resolves"] hs ps
  have 1: "pending (enQueue (\<lambda>n. Resolves) b s) = [Some a, Some b]"
    "fst (deQueue s) = Some a" "pending (snd (deQueue s)) = []"
    by simp_all
  from enQueue_deQueue_fifo [of t b "\<lambda>n. Resolves"] ht
  have 2: "enQueue (\<lambda>n. Resolves) b t = say [Err ''queue overflow''] t"
    by simp
  from enQueue_deQueue_fifo [of "initvalues False" b "\<lambda>n. Resolves"] hi
  have 3: "deQueue (initvalues False) = (None, initvalues False)"
    by simp
  from 1 2 3 show ?thesis
    unfolding Let_def a_def b_def s_def t_def by simp
qed

subsection \<open>The watchdog counter\<close>

lemma errMsg_Str: "errMsg err = Str m \<Longrightarrow> dget err ''body'' = Inr (getp err ''body'')"
  by (cases err) (auto simp: errMsg_def or_js_def dget_def)

lemma retryCode_plain:
  "\<not> contains m res4002 \<Longrightarrow> \<not> contains m res4004 \<Longrightarrow> retryCode (Str m) = Inr False"
  by (simp add: retryCode_def)

lemma retryCode_match:
  "contains m res4002 \<or> contains m res4004 \<Longrightarrow> retryCode (Str m) = Inr True"
proof -
  assume a: "contains m res4002 \<or> contains m res4004"
  then have "m \<noteq> []"
    by (auto simp: res4002_def res4004_def)
  with a show ?thesis
    by (cases "contains m res4002") (auto simp: retryCode_def)
qed

lemma runItem_no_session:
  "\<not> session s \<Longrightarrow>
     runItem w it s = Stop (caught (Error ''Ignoring queued command; not logged in'')
                              (s\<lparr>watchDogCounter := watchDogCounter s - 2\<rparr>))"
  by (simp add: runItem_def)

lemma runItem_success:
  assumes "session s" "w (tick s) = Resolves"
  shows "\<exists>s'. runItem w it s = Continue s' \<and> watchDogCounter s' = 6"
  using assms by (simp add: runItem_def execute_def say_def Let_def)

lemma runItem_failure:
  assumes "session s" "w (tick s) = Rejects err" "errMsg err = Str m"
    "\<not> contains m res4002" "\<not> contains m res4004"
  shows "runItem w it s =
    Continue (say [Wait (itemWait (command it) * 1000)]
      (giveUp it (Str m)
         ((say [Exec (command it) (args it)] (s\<lparr>lastCommand := Some (command it)\<rparr>))
            \<lparr>tick := tick s + 1\<rparr>)))"
  using assms
  by (simp add: runItem_def execute_def onRejected_def errMsg_Str retryCode_plain say_def Let_def)

lemma runItem_retry:
  assumes "session s" "w (tick s) = Rejects err" "errMsg err = Str m"
    "contains m res4002 \<or> contains m res4004"
    "if loginOnRetry s then w (tick s + 1) = Resolves \<and> w (tick s + 2) = r
     else w (tick s + 1) = r"
  shows "\<exists>s'. runItem w it s = Continue s' \<and>
     watchDogCounter s' = (case r of Resolves \<Rightarrow> 6 | Rejects e \<Rightarrow> watchDogCounter s - 1)"
  using assms
  by (cases r)
    (auto simp: runItem_def execute_def onRejected_def errMsg_Str retryCode_match say_def Let_def
      giveUp_def)


text \<open>
  One queued command execution (\<open>runItem\<close>, the body of \<^verbatim>\<open>runQueue\<close> for a
  dequeued command), where the handler gets through: without a vehicle session the
  counter drops by 2; when the call resolves it is set to 6; when the call rejects
  with an error whose message is a string without the retry codes 4002 and 4004 it
  drops by 1; when the message carries a retry code and the one retry resolves it is
  set to 6.
\<close>

theorem watchdog_per_command:
  "(\<not> session s \<longrightarrow>
      (\<exists>s'. runItem w it s = Stop s' \<and> watchDogCounter s' = watchDogCounter s - 2)) \<and>
   (session s \<and> w (tick s) = Resolves \<longrightarrow>
      (\<exists>s'. runItem w it s = Continue s' \<and> watchDogCounter s' = 6)) \<and>
   (session s \<and> w (tick s) = Rejects err \<and> errMsg err = Str m \<and>
    \<not> contains m res4002 \<and> \<not> contains m res4004 \<longrightarrow>
      (\<exists>s'. runItem w it s = Continue s' \<and> watchDogCounter s' = watchDogCounter s - 1)) \<and>
   (session s \<and> w (tick s) = Rejects err \<and> errMsg err = Str m \<and>
    (contains m res4002 \<or> contains m res4004) \<and>
    (if loginOnRetry s then w (tick s + 1) = Resolves \<and> w (tick s + 2) = Resolves
     else w (tick s + 1) = Resolves) \<longrightarrow>
      (\<exists>s'. runItem w it s = Continue s' \<and> watchDogCounter s' = 6))"
proof (intro conjI impI)
  assume "\<not> session s"
  then show "\<exists>s'. runItem w it s = Stop s' \<and> watchDogCounter s' = watchDogCounter s - 2"
    by (simp add: runItem_no_session caught_def say_def)
next
  assume "session s \<and> w (tick s) = Resolves"
  then show "\<exists>s'. runItem w it s = Continue s' \<and> watchDogCounter s' = 6"
    by (simp add: runItem_success)
next
  assume "session s \<and> w (tick s) = Rejects err \<and> errMsg err = Str m \<and>
    \<not> contains m res4002 \<and> \<not> contains m res4004"
  then show "\<exists>s'. runItem w it s = Continue s' \<and> watchDogCounter s' = watchDogCounter s - 1"
    by (simp add: runItem_failure giveUp_def say_def)
next
  assume "session s \<and> w (tick s) = Rejects err \<and> errMsg err = Str m \<and>
    (contains m res4002 \<or> contains m res4004) \<and>
    (if loginOnRetry s then w (tick s + 1) = Resolves \<and> w (tick s + 2) = Resolves
     else w (tick s + 1) = Resolves)"
  then have "\<exists>s'. runItem w it s = Continue s' \<and>
     watchDogCounter s' = (case Resolves of Resolves \<Rightarrow> 6 | Rejects e \<Rightarrow> watchDogCounter s - 1)"
    by (intro runItem_retry [where err = err and m = m]) (auto split: if_splits)
  then show "\<exists>s'. runItem w it s = Continue s' \<and> watchDogCounter s' = 6"
    by simp
qed

theorem watchdog_per_command_witness:
  "(let it = \<lparr>command = ''lock'', args = Undefined\<rparr>;
        s = (initvalues False)\<lparr>watchDogCounter := 3\<rparr>;
        t = (initvalues True)\<lparr>session := True, watchDogCounter := 3\<rparr>;
        plain = Obj [(''message'', Str ''timeout'')];
        dup = Obj [(''message'', Str res4004)]
    in (\<exists>s'. runItem (\<lambda>n. Resolves) it s = Stop s' \<and> watchDogCounter s' = 1) \<and>
       (\<exists>s'. runItem (\<lambda>n. Resolves) it t = Continue s' \<and> watchDogCounter s' = 6) \<and>
       (\<exists>s'. runItem (\<lambda>n. Rejects plain) it t = Continue s' \<and> watchDogCounter s' = 2) \<and>
       (\<exists>s'. runItem (\<lambda>n. if n = 0 then Rejects dup else Resolves) it t = Continue s' \<and>
             watchDogCounter s' = 6))"
proof -
  define it where "it = \<lparr>command = ''lock'', args = Undefined\<rparr>"
  define s where "s = (initvalues False)\<lparr>watchDogCounter := 3\<rparr>"
  define t where "t = (initvalues True)\<lparr>session := True, watchDogCounter := 3\<rparr>"
  define plain where "plain = Obj [(''message'', Str ''timeout'')]"
  define dup where "dup = Obj [(''message'', Str res4004)]"
  have hs: "\<not> session s" "watchDogCounter s = 3"
    by (simp_all add: s_def initvalues_def)
  have ht: "session t" "watchDogCounter t = 3" "tick t = 0" "loginOnRetry t"
    by (simp_all add: t_def initvalues_def)
  have mp: "errMsg plain = Str ''timeout''"
    "\<not> contains ''timeout'' res4002" "\<not> contains ''timeout'' res4004"
    by (simp_all add: plain_def errMsg_def or_js_def res4002_def res4004_def)
  have md: "errMsg dup = Str res4004" "contains res4004 res4004"
    by (simp_all add: dup_def errMsg_def or_js_def res4004_def)
  from watchdog_per_command [of s "\<lambda>n. Resolves" it] hs
  have 1: "\<exists>s'. runItem (\<lambda>n. Resolves) it s = Stop s' \<and> watchDogCounter s' = 1"
    by simp
  from watchdog_per_command [of t "\<lambda>n. Resolves" it] ht
  have 2: "\<exists>s'. runItem (\<lambda>n. Resolves) it t = Continue s' \<and> watchDogCounter s' = 6"
    by simp
  from watchdog_per_command [of t "\<lambda>n. Rejects plain" it plain "''timeout''"] ht mp
  have 3: "\<exists>s'. runItem (\<lambda>n. Rejects plain) it t = Continue s' \<and> watchDogCounter s' = 2"
    by simp
  from watchdog_per_command [of t "\<lambda>n. if n = 0 then Rejects dup else Resolves" it dup res4004]
    ht md
  have 4: "\<exists>s'. runItem (\<lambda>n. if n = 0 then Rejects dup else Resolves) it t = Continue s' \<and>
             watchDogCounter s' = 6"
    by simp
  from 1 2 3 4 show ?thesis
    unfolding Let_def it_def s_def t_def plain_def dup_def by simp
qed

text \<open>
  C1: a command that fails with an error that does not match the retry codes is to
  cost 1. The handler takes \<^verbatim>\<open>error.body || error.message || error\<close> and calls
  \<^verbatim>\<open>includes\<close> on it. For a rejection without a string in it (an object with a
  status code, an error with an empty message, \<^verbatim>\<open>undefined\<close>) that call, or the
  read of \<^verbatim>\<open>error.body\<close>, throws inside the handler: the outer \<^verbatim>\<open>catch\<close>
  of \<^verbatim>\<open>runQueue\<close> ends the consumer and the counter stays as it was.
\<close>

theorem rejection_without_string_not_charged:
  "(let it = \<lparr>command = ''lock'', args = Undefined\<rparr>;
        t = (initvalues False)\<lparr>session := True, watchDogCounter := 3\<rparr>
    in (\<exists>s'. runItem (\<lambda>n. Rejects (Obj [(''statusCode'', Num 500)])) it t = Stop s' \<and>
             watchDogCounter s' = 3 \<and> trace s' = [Exec ''lock'' Undefined, Caught TypeError]) \<and>
       (\<exists>s'. runItem (\<lambda>n. Rejects (Obj [(''message'', Str [])])) it t = Stop s' \<and>
             watchDogCounter s' = 3 \<and> trace s' = [Exec ''lock'' Undefined, Caught TypeError]) \<and>
       (\<exists>s'. runItem (\<lambda>n. Rejects Undefined) it t = Stop s' \<and>
             watchDogCounter s' = 3 \<and> trace s' = [Exec ''lock'' Undefined, Caught TypeError]))"
  by (simp add: runItem_def execute_def onRejected_def errMsg_def retryCode_def dget_def
      or_js_def caught_def say_def initvalues_def Let_def)

subsection \<open>Failures and the rest of the queue\<close>















lemma pollTick_flush:
  "watchDogCounter s \<le> 0 \<Longrightarrow> \<not> restarting s \<Longrightarrow>
     pending (pollTick w s) = [] \<and> \<not> polling (pollTick w s)"
  by (simp add: pollTick_def restartDevice_def flushQueue_def stopPolling_def say_def pending_def)





section \<open>Properties of the classifier and of the odometer repair\<close>

lemma map_of_setp [simp]: "map_of (setp m k v) k' = (if k' = k then Some v else map_of m k')"
  by (induction m k v rule: setp.induct) auto

lemma getp_setp: "getp (Obj (setp m k v)) k' = (if k' = k then v else getp (Obj m) k')"
  by simp

lemma self_displacement: "\<not> exceeds (abs_js (sub_js e x x)) c" if "0 \<le> c"
  using that by (auto simp: exceeds_def abs_js_def sub_js_def split: option.splits)

lemma self_displacement_deg:
  "\<not> exceeds (abs_js (sub_js e x x)) deg0001" "\<not> exceeds (abs_js (sub_js e x x)) deg0003"
  by (simp_all add: self_displacement deg0001_def deg0003_def)

lemma gt_js_num: "gt_js e (Num r) (Num c) = (r > c)"
  by (simp add: gt_js_def lt_js_def toPrimitive_def toNumber_def)

lemma sub_js_num: "sub_js e (Num a) (Num b) = Some (if a = b then 0 else nearest e (a - b))"
  by (simp add: sub_js_def toNumber_def toPrimitive_def)

lemma repairOdo_number:
  "\<not> truthy (getp (Obj m) ''measure_odo'') \<Longrightarrow> getp prev ''measure_odo'' = Num r \<Longrightarrow>
     getp (Obj (repairOdo prev m)) ''measure_odo'' = Obj []"
  by (simp add: repairOdo_def)

text \<open>
  At the thresholds: the double written \<^verbatim>\<open>52.0001\<close> is
  \<open>1829590867056473 / 2 ^ 45\<close> and lies more than the double \<^verbatim>\<open>0.0001\<close>
  from 52 (the difference is a double, so no rounding takes part); likewise
  \<^verbatim>\<open>52.0003\<close>, \<open>7318391615723563 / 2 ^ 47\<close>, for the park location.
\<close>

lemma isMoving_at_threshold:
  "isMoving (quiet (\<lambda>k. if k = ''latitude'' then Num 52 else Num 5))
     [(''measure_speed'', Num (- 1)), (''latitude'', Num (1829590867056473 / 2 ^ 45)),
      (''longitude'', Num 5)]"
  by (simp add: isMoving_def quiet_def gt_js_num sub_js_num exceeds_def abs_js_def deg0001_def)

lemma isParking_at_threshold:
  "isParking (quiet (\<lambda>k. Undefined)) (Obj [(''latitude'', Num 52), (''longitude'', Num 5)])
     [(''engine'', Bool False), (''latitude'', Num (7318391615723563 / 2 ^ 47)),
      (''longitude'', Num 5)] = Inr True"
  by (simp add: isParking_def quiet_def dget_def sub_js_num exceeds_def abs_js_def deg0003_def)

text \<open>
  C4: the repair is to put the previous odometer value in place of a zero. The
  driver spreads the previous value into an object literal; a number has no own
  properties, so with a previous odometer of 12345 the repaired field is the empty
  object, not 12345.
\<close>

theorem odometer_repair_spreads_number:
  "getp (Obj (repairOdo (Obj [(''measure_odo'', Num 12345)]) [(''measure_odo'', Num 0)]))
     ''measure_odo'' = Obj []"
  by (simp add: repairOdo_def)




text \<open>
  C8, as stated: a record classified against itself never reports moving. A record
  with a speed of 50 and its own coordinates as the previous location does.
\<close>

theorem moving_record_reports_moving:
  "(let info = [(''measure_speed'', Num 50), (''latitude'', Num 52), (''longitude'', Num 5),
                (''engine'', Bool True)];
        e = quiet (getp (Obj info))
    in isMoving e info)"
  by (simp add: isMoving_def quiet_def gt_js_num)

text \<open>
  C8, amended: for a record classified against itself (its own coordinates as the
  previous location and as the park location) \<^verbatim>\<open>isParking\<close> is false, and
  \<^verbatim>\<open>isMoving\<close> is true exactly when the speed and the latitude are truthy and the
  speed is above 0: the displacement never counts, the speed alone does.
\<close>

theorem no_self_transition:
  "(capability e ''latitude'' = getp (Obj info) ''latitude'' \<and>
    capability e ''longitude'' = getp (Obj info) ''longitude'' \<longrightarrow>
      isMoving e info =
        (truthy (getp (Obj info) ''measure_speed'') \<and> truthy (getp (Obj info) ''latitude'') \<and>
         gt_js e (getp (Obj info) ''measure_speed'') (Num 0))) \<and>
   isParking e (Obj info) info = Inr False"
  by (auto simp: isMoving_def isParking_def Let_def self_displacement_deg dget_def)

theorem no_self_transition_witness:
  "(let parked = [(''measure_speed'', Num 0), (''latitude'', Num 52), (''longitude'', Num 5),
                  (''engine'', Bool False)];
        driving = [(''measure_speed'', Num 50), (''latitude'', Num 52), (''longitude'', Num 5),
                   (''engine'', Bool True)]
    in \<not> isMoving (quiet (getp (Obj parked))) parked \<and>
       isParking (quiet (getp (Obj parked))) (Obj parked) parked = Inr False \<and>
       isMoving (quiet (getp (Obj driving))) driving \<and>
       isParking (quiet (getp (Obj driving))) (Obj driving) driving = Inr False)"
proof -
  define parked where "parked = [(''measure_speed'', Num 0), (''latitude'', Num 52),
      (''longitude'', Num 5), (''engine'', Bool False)]"
  define driving where "driving = [(''measure_speed'', Num 50), (''latitude'', Num 52),
      (''longitude'', Num 5), (''engine'', Bool True)]"
  have c: "capability (quiet (getp (Obj parked))) = getp (Obj parked)"
    "capability (quiet (getp (Obj driving))) = getp (Obj driving)"
    by (simp_all add: quiet_def)
  from no_self_transition [of "quiet (getp (Obj parked))" parked] c
  have 1: "\<not> isMoving (quiet (getp (Obj parked))) parked"
    "isParking (quiet (getp (Obj parked))) (Obj parked) parked = Inr False"
    by (simp_all add: parked_def)
  from no_self_transition [of "quiet (getp (Obj driving))" driving] c
  have 2: "isMoving (quiet (getp (Obj driving))) driving"
    "isParking (quiet (getp (Obj driving))) (Obj driving) driving = Inr False"
    by (simp_all add: driving_def gt_js_num)
  from 1 2 show ?thesis
    unfolding Let_def parked_def driving_def by simp
qed

section \<open>Properties of the normalizer\<close>

lemma locate_frame:
  assumes "locate e m = Inr m'" "k \<noteq> ''meter_distance''" "k \<noteq> ''location''" "k \<noteq> ''address''"
  shows "getp (Obj m') k = getp (Obj m) k"
  using assms by (auto simp: locate_def Let_def split: sum.splits)

lemma chargeTargets_frame:
  assumes "chargeTargets e sts m = Inr m'" "k \<noteq> ''charge_target_slow''" "k \<noteq> ''charge_target_fast''"
  shows "getp (Obj m') k = getp (Obj m) k"
  using assms by (auto simp: chargeTargets_def Let_def split: sum.splits if_splits)

lemma legacyFull_speed:
  assumes "legacyFull e sts m = Inr m'"
  shows "getp (Obj m') ''measure_speed'' = capSpeed e (path sts [''vehicleLocation'', ''speed'', ''value''])"
proof -
  from assms obtain m4 where l: "locate e m4 = Inr m'"
    and s: "getp (Obj m4) ''measure_speed'' = capSpeed e (path sts [''vehicleLocation'', ''speed'', ''value''])"
    by (auto simp: legacyFull_def Let_def)
  from locate_frame [OF l, of "''measure_speed''"] s show ?thesis by simp
qed

lemma chargeTargets_speed:
  "chargeTargets e sts m = Inr m' \<Longrightarrow> getp (Obj m') ''measure_speed'' = getp (Obj m) ''measure_speed''"
  by (rule chargeTargets_frame) simp_all

lemma chargeTargets_closed:
  "chargeTargets e sts m = Inr m' \<Longrightarrow> getp (Obj m') ''closed_locked'' = getp (Obj m) ''closed_locked''"
  by (rule chargeTargets_frame) simp_all

lemma legacyStatus_speed:
  assumes "legacyStatus e sts m = Inr m'"
  shows "getp (Obj m') ''measure_speed'' = getp (Obj m) ''measure_speed''"
  using assms unfolding legacyStatus_def Let_def
  by (auto split: sum.splits dest!: chargeTargets_speed)

lemma legacyStatus_phase:
  assumes "legacyStatus e sts m = Inr m'"
  shows "getp (Obj m') ''ev_charging_state'' =
          Str (evChargingState e (path sts [''evStatus'', ''batteryPlugin''])
                 (path sts [''evStatus'', ''batteryCharge'']))"
  using assms unfolding legacyStatus_def Let_def
  by (auto split: sum.splits)

lemma legacyStatus_closed:
  assumes "legacyStatus e sts m = Inr m'"
  shows "closedLocked sts = Inr (getp (Obj m') ''closed_locked'')"
  using assms unfolding legacyStatus_def Let_def
  by (auto split: sum.splits dest!: chargeTargets_closed)

lemma locate_speed:
  "locate e m = Inr m' \<Longrightarrow> getp (Obj m') ''measure_speed'' = getp (Obj m) ''measure_speed''"
  by (rule locate_frame) simp_all

lemma currentStatus_speed:
  assumes "currentStatus e sts m = Inr m'"
  shows "getp (Obj m') ''measure_speed'' = capSpeed e (path sts [''Location'', ''Speed'', ''Value''])"
  using assms unfolding currentStatus_def Let_def
  by (auto split: sum.splits dest!: locate_speed)

lemma currentStatus_phase:
  assumes "currentStatus e sts m = Inr m'"
  shows "getp (Obj m') ''ev_charging_state'' =
          Str (evChargingState e
                 (path sts [''Green'', ''ChargingInformation'', ''ConnectorFastening'', ''State''])
                 (Bool (truthy (path sts [''Green'', ''ChargingInformation'', ''Charging'',
                                           ''RemainTime'']))))"
  using assms unfolding currentStatus_def Let_def
  by (auto split: sum.splits)

lemma mapStatus_falsy: "\<not> truthy status \<Longrightarrow> mapStatus e status = Inr []"
  by (simp add: mapStatus_def)

lemma spread_falsy: "\<not> truthy status \<Longrightarrow> spread status = []"
  by (cases status) auto

lemma statusBody_falsy: "\<not> truthy status \<Longrightarrow> statusBody status = Obj []"
  by (simp add: statusBody_def isFull_def spread_falsy)

lemma truthy_field:
  "truthy (getp (statusBody status) k) \<Longrightarrow> truthy status"
  "isFull status \<Longrightarrow> truthy status"
  by (cases "truthy status"; simp add: statusBody_falsy)
    (cases "truthy status"; simp add: isFull_def spread_falsy)

lemma mapStatus_current:
  assumes "mapStatus e status = Inr m" "truthy (getp (statusBody status) ''Date'')"
  shows "\<exists>m2. currentStatus e (statusBody status) m2 = Inr m"
  using assms truthy_field(1) [OF assms(2)] unfolding mapStatus_def Let_def
  by (auto split: sum.splits if_splits)

lemma mapStatus_legacy:
  assumes "mapStatus e status = Inr m" "truthy (getp (statusBody status) ''time'')"
    "\<not> truthy (getp (statusBody status) ''Date'')"
  shows "\<exists>m1. legacyStatus e (statusBody status) m1 = Inr m"
  using assms truthy_field(1) [OF assms(2)] unfolding mapStatus_def Let_def
  by (auto split: sum.splits if_splits)

lemma mapStatus_full:
  assumes "mapStatus e status = Inr m" "isFull status"
    "\<not> truthy (getp (statusBody status) ''Date'')"
  shows "\<exists>m1. legacyFull e (Obj (spread status)) [] = Inr m1 \<and>
     (m = m1 \<or> legacyStatus e (statusBody status) m1 = Inr m)"
  using assms truthy_field(2) [OF assms(2)] unfolding mapStatus_def Let_def
  by (auto split: sum.splits if_splits)

lemma capSpeed_num: "capSpeed e (Num r) = (if r > 255 then Num 0 else Num r)"
  by (simp add: capSpeed_def gt_js_num)

lemmas eval_defs =
  mapStatus_def isFull_def statusBody_def legacyFull_def legacyStatus_def currentStatus_def
  locate_def distance_def capSpeed_def evChargingState_def plus2_def closedLocked_def
  doorsClosed_def keys_js_def targetTemperature_def measureRange_def alarmBat_def
  chargeTargets_def targetSOC_def callToString_def thenDot_def thenToString_def
  numericTemp_def present_def everyZero_def path_def dget_def or_js_def
  toNumber_def toPrimitive_def lt_js_def gt_js_def num_def mul_js_def div_js_def round_js_def
  quiet_def Let_def


lemma phase_table:
  "evChargingState e (Num c) charge =
     (if c = 0 then ''plugged_out''
      else if c = 1 \<or> c = 2 then (if truthy charge then ''plugged_in_charging'' else ''plugged_in'')
      else if c = 3 \<or> c = 4 then (if truthy charge then ''plugged_in'' else ''plugged_out'')
      else evChargingState e (Num c) charge)"
  by (auto simp: evChargingState_def plus2_def toPrimitive_def toNumber_def num_def)


lemma doorsClosed_true: "doorsClosed d = Inr v \<Longrightarrow> v = Bool True"
proof -
  have "foldl (\<lambda>closedAccu door. or_js closedAccu (Bool (\<not> truthy (getp d door)))) (Bool True) ks
      = Bool True" for ks
    by (induction ks) (simp_all add: or_js_def)
  then show "doorsClosed d = Inr v \<Longrightarrow> v = Bool True"
    by (auto simp: doorsClosed_def split: sum.splits)
qed

text \<open>
  C10: in the old type full status and in the new type status the speed field of the
  record is 0 when the reported speed is above 255, and the reported speed itself
  otherwise. (An old type full status whose inner status also has a truthy
  \<^verbatim>\<open>Date\<close> runs the third block too and falls under the second part.)
\<close>

theorem speed_capped:
  "(mapStatus e status = Inr m \<and> isFull status \<and> \<not> truthy (getp (statusBody status) ''Date'') \<longrightarrow>
      (let speed = path (Obj (spread status)) [''vehicleLocation'', ''speed'', ''value''] in
         getp (Obj m) ''measure_speed'' = (if gt_js e speed (Num 255) then Num 0 else speed) \<and>
         (\<forall>r. speed = Num r \<longrightarrow>
            getp (Obj m) ''measure_speed'' = (if r > 255 then Num 0 else Num r)))) \<and>
   (mapStatus e status = Inr m \<and> truthy (getp (statusBody status) ''Date'') \<longrightarrow>
      (let speed = path (statusBody status) [''Location'', ''Speed'', ''Value''] in
         getp (Obj m) ''measure_speed'' = (if gt_js e speed (Num 255) then Num 0 else speed) \<and>
         (\<forall>r. speed = Num r \<longrightarrow>
            getp (Obj m) ''measure_speed'' = (if r > 255 then Num 0 else Num r))))"
proof (intro conjI impI)
  assume a: "mapStatus e status = Inr m \<and> isFull status \<and>
    \<not> truthy (getp (statusBody status) ''Date'')"
  then obtain m1 where f: "legacyFull e (Obj (spread status)) [] = Inr m1"
    and d: "m = m1 \<or> legacyStatus e (statusBody status) m1 = Inr m"
    using mapStatus_full [of e status m] by blast
  from d have "getp (Obj m) ''measure_speed'' = getp (Obj m1) ''measure_speed''"
    using legacyStatus_speed [of e "statusBody status" m1 m] by auto
  with legacyFull_speed [OF f]
  have "getp (Obj m) ''measure_speed'' =
      capSpeed e (path (Obj (spread status)) [''vehicleLocation'', ''speed'', ''value''])"
    by simp
  then show "let speed = path (Obj (spread status)) [''vehicleLocation'', ''speed'', ''value''] in
         getp (Obj m) ''measure_speed'' = (if gt_js e speed (Num 255) then Num 0 else speed) \<and>
         (\<forall>r. speed = Num r \<longrightarrow>
            getp (Obj m) ''measure_speed'' = (if r > 255 then Num 0 else Num r))"
    unfolding Let_def by (auto simp: capSpeed_def gt_js_num)
next
  assume a: "mapStatus e status = Inr m \<and> truthy (getp (statusBody status) ''Date'')"
  then obtain m2 where "currentStatus e (statusBody status) m2 = Inr m"
    using mapStatus_current [of e status m] by blast
  then have "getp (Obj m) ''measure_speed'' =
      capSpeed e (path (statusBody status) [''Location'', ''Speed'', ''Value''])"
    by (rule currentStatus_speed)
  then show "let speed = path (statusBody status) [''Location'', ''Speed'', ''Value''] in
         getp (Obj m) ''measure_speed'' = (if gt_js e speed (Num 255) then Num 0 else speed) \<and>
         (\<forall>r. speed = Num r \<longrightarrow>
            getp (Obj m) ''measure_speed'' = (if r > 255 then Num 0 else Num r))"
    unfolding Let_def by (auto simp: capSpeed_def gt_js_num)
qed


theorem speed_capped_witness:
  "(\<exists>m. mapStatus (quiet (\<lambda>k. Undefined))
          (Obj [(''vehicleStatus'', Obj [(''time'', Str ''20250101'')]),
                (''vehicleLocation'', Obj [(''coord'', Obj [(''lat'', Num 52), (''lon'', Num 5)]),
                     (''speed'', Obj [(''value'', Num 300)])])]) = Inr m \<and>
        getp (Obj m) ''measure_speed'' = Num 0) \<and>
   (\<exists>m. mapStatus (quiet (\<lambda>k. Undefined))
          (Obj [(''vehicleStatus'', Obj [(''time'', Str ''20250101'')]),
                (''vehicleLocation'', Obj [(''coord'', Obj [(''lat'', Num 52), (''lon'', Num 5)]),
                     (''speed'', Obj [(''value'', Num 120)])])]) = Inr m \<and>
        getp (Obj m) ''measure_speed'' = Num 120) \<and>
   (\<exists>m. mapStatus (quiet (\<lambda>k. Undefined))
          (Obj [(''Date'', Str ''20250101''),
                (''Location'', Obj [(''GeoCoord'', Obj [(''Latitude'', Num 52), (''Longitude'', Num 5)]),
                                   (''Speed'', Obj [(''Value'', Num 300)])])]) = Inr m \<and>
        getp (Obj m) ''measure_speed'' = Num 0)"
proof -
  define e where "e = quiet (\<lambda>k. Undefined)"
  define fast where "fast = Obj [(''vehicleStatus'', Obj [(''time'', Str ''20250101'')]),
                (''vehicleLocation'', Obj [(''coord'', Obj [(''lat'', Num 52), (''lon'', Num 5)]),
                     (''speed'', Obj [(''value'', Num 300)])])]"
  define slow where "slow = Obj [(''vehicleStatus'', Obj [(''time'', Str ''20250101'')]),
                (''vehicleLocation'', Obj [(''coord'', Obj [(''lat'', Num 52), (''lon'', Num 5)]),
                     (''speed'', Obj [(''value'', Num 120)])])]"
  define new where "new = Obj [(''Date'', Str ''20250101''),
                (''Location'', Obj [(''GeoCoord'', Obj [(''Latitude'', Num 52), (''Longitude'', Num 5)]),
                                   (''Speed'', Obj [(''Value'', Num 300)])])]"
  obtain m1 where m1: "mapStatus e fast = Inr m1"
    by (simp add: e_def fast_def eval_defs)
  obtain m2 where m2: "mapStatus e slow = Inr m2"
    by (simp add: e_def slow_def eval_defs)
  obtain m3 where m3: "mapStatus e new = Inr m3"
    by (simp add: e_def new_def eval_defs)
  have s1: "isFull fast" "\<not> truthy (getp (statusBody fast) ''Date'')"
    "path (Obj (spread fast)) [''vehicleLocation'', ''speed'', ''value''] = Num 300"
    by (simp_all add: fast_def isFull_def statusBody_def path_def)
  have s2: "isFull slow" "\<not> truthy (getp (statusBody slow) ''Date'')"
    "path (Obj (spread slow)) [''vehicleLocation'', ''speed'', ''value''] = Num 120"
    by (simp_all add: slow_def isFull_def statusBody_def path_def)
  have s3: "truthy (getp (statusBody new) ''Date'')"
    "path (statusBody new) [''Location'', ''Speed'', ''Value''] = Num 300"
    by (simp_all add: new_def isFull_def statusBody_def path_def)
  from speed_capped [of e fast m1] m1 s1 have "getp (Obj m1) ''measure_speed'' = Num 0"
    by (simp add: Let_def gt_js_num)
  moreover from speed_capped [of e slow m2] m2 s2 have "getp (Obj m2) ''measure_speed'' = Num 120"
    by (simp add: Let_def gt_js_num)
  moreover from speed_capped [of e new m3] m3 s3 have "getp (Obj m3) ''measure_speed'' = Num 0"
    by (simp add: Let_def gt_js_num)
  ultimately show ?thesis
    using m1 m2 m3 unfolding e_def fast_def slow_def new_def by blast
qed

text \<open>
  C6: the charging phase of the record, from the plug code and the charging flag (in
  the old status types the truthiness of \<^verbatim>\<open>batteryCharge\<close>, in the new one that
  of \<^verbatim>\<open>RemainTime\<close>). Codes 1 and 2 give \<^verbatim>\<open>plugged_in_charging\<close> when charging
  and \<^verbatim>\<open>plugged_in\<close> when not; code 0 gives \<^verbatim>\<open>plugged_out\<close>; the same table
  in both blocks. Raw codes 3 and 4 are not recoded when charging and leave the table
  when not.
\<close>

theorem charging_phase_table:
  "(mapStatus e status = Inr m \<and> truthy (getp (statusBody status) ''time'') \<and>
    \<not> truthy (getp (statusBody status) ''Date'') \<and>
    path (statusBody status) [''evStatus'', ''batteryPlugin''] = Num c \<and>
    truthy (path (statusBody status) [''evStatus'', ''batteryCharge'']) = charging \<and>
    c \<in> {0, 1, 2, 3, 4} \<longrightarrow>
      getp (Obj m) ''ev_charging_state'' =
        Str (if c = 0 then ''plugged_out''
             else if c = 1 \<or> c = 2 then (if charging then ''plugged_in_charging'' else ''plugged_in'')
             else (if charging then ''plugged_in'' else ''plugged_out''))) \<and>
   (mapStatus e status = Inr m \<and> truthy (getp (statusBody status) ''Date'') \<and>
    path (statusBody status) [''Green'', ''ChargingInformation'', ''ConnectorFastening'', ''State'']
      = Num c \<and>
    truthy (path (statusBody status) [''Green'', ''ChargingInformation'', ''Charging'', ''RemainTime''])
      = charging \<and>
    c \<in> {0, 1, 2, 3, 4} \<longrightarrow>
      getp (Obj m) ''ev_charging_state'' =
        Str (if c = 0 then ''plugged_out''
             else if c = 1 \<or> c = 2 then (if charging then ''plugged_in_charging'' else ''plugged_in'')
             else (if charging then ''plugged_in'' else ''plugged_out'')))"
proof (intro conjI impI)
  assume a: "mapStatus e status = Inr m \<and> truthy (getp (statusBody status) ''time'') \<and>
    \<not> truthy (getp (statusBody status) ''Date'') \<and>
    path (statusBody status) [''evStatus'', ''batteryPlugin''] = Num c \<and>
    truthy (path (statusBody status) [''evStatus'', ''batteryCharge'']) = charging \<and>
    c \<in> {0, 1, 2, 3, 4}"
  then obtain m1 where "legacyStatus e (statusBody status) m1 = Inr m"
    using mapStatus_legacy [of e status m] by blast
  from legacyStatus_phase [OF this] a
  show "getp (Obj m) ''ev_charging_state'' =
        Str (if c = 0 then ''plugged_out''
             else if c = 1 \<or> c = 2 then (if charging then ''plugged_in_charging'' else ''plugged_in'')
             else (if charging then ''plugged_in'' else ''plugged_out''))"
    using phase_table [of e c "path (statusBody status) [''evStatus'', ''batteryCharge'']"]
    by auto
next
  assume a: "mapStatus e status = Inr m \<and> truthy (getp (statusBody status) ''Date'') \<and>
    path (statusBody status) [''Green'', ''ChargingInformation'', ''ConnectorFastening'', ''State'']
      = Num c \<and>
    truthy (path (statusBody status) [''Green'', ''ChargingInformation'', ''Charging'', ''RemainTime''])
      = charging \<and>
    c \<in> {0, 1, 2, 3, 4}"
  then obtain m2 where "currentStatus e (statusBody status) m2 = Inr m"
    using mapStatus_current [of e status m] by blast
  from currentStatus_phase [OF this] a
  show "getp (Obj m) ''ev_charging_state'' =
        Str (if c = 0 then ''plugged_out''
             else if c = 1 \<or> c = 2 then (if charging then ''plugged_in_charging'' else ''plugged_in'')
             else (if charging then ''plugged_in'' else ''plugged_out''))"
    using phase_table [of e c "Bool (truthy (path (statusBody status)
        [''Green'', ''ChargingInformation'', ''Charging'', ''RemainTime'']))"]
    by auto
qed


theorem charging_phase_table_witness:
  "(\<exists>m. mapStatus (quiet (\<lambda>k. Undefined))
          (Obj [(''time'', Str ''20250101''),
                (''evStatus'', Obj [(''batteryPlugin'', Num 1), (''batteryCharge'', Bool False)])])
          = Inr m \<and>
        getp (Obj m) ''ev_charging_state'' = Str ''plugged_in'') \<and>
   (\<exists>m. mapStatus (quiet (\<lambda>k. Undefined))
          (Obj [(''time'', Str ''20250101''),
                (''evStatus'', Obj [(''batteryPlugin'', Num 0), (''batteryCharge'', Bool True)])])
          = Inr m \<and>
        getp (Obj m) ''ev_charging_state'' = Str ''plugged_out'') \<and>
   (\<exists>m. mapStatus (quiet (\<lambda>k. Undefined))
          (Obj [(''Date'', Str ''20250101''),
                (''Location'', Obj [(''GeoCoord'', Obj [(''Latitude'', Num 52), (''Longitude'', Num 5)])]),
                (''Green'', Obj [(''ChargingInformation'',
                   Obj [(''ConnectorFastening'', Obj [(''State'', Num 2)]),
                        (''Charging'', Obj [(''RemainTime'', Num 35)])])])])
          = Inr m \<and>
        getp (Obj m) ''ev_charging_state'' = Str ''plugged_in_charging'')"
proof -
  define e where "e = quiet (\<lambda>k. Undefined)"
  define idle where "idle = Obj [(''time'', Str ''20250101''),
      (''evStatus'', Obj [(''batteryPlugin'', Num 1), (''batteryCharge'', Bool False)])]"
  define out where "out = Obj [(''time'', Str ''20250101''),
      (''evStatus'', Obj [(''batteryPlugin'', Num 0), (''batteryCharge'', Bool True)])]"
  define new where "new = Obj [(''Date'', Str ''20250101''),
      (''Location'', Obj [(''GeoCoord'', Obj [(''Latitude'', Num 52), (''Longitude'', Num 5)])]),
                (''Green'', Obj [(''ChargingInformation'',
         Obj [(''ConnectorFastening'', Obj [(''State'', Num 2)]),
              (''Charging'', Obj [(''RemainTime'', Num 35)])])])]"
  obtain m1 where m1: "mapStatus e idle = Inr m1"
    by (simp add: e_def idle_def eval_defs)
  obtain m2 where m2: "mapStatus e out = Inr m2"
    by (simp add: e_def out_def eval_defs)
  obtain m3 where m3: "mapStatus e new = Inr m3"
    by (simp add: e_def new_def eval_defs)
  have s1: "truthy (getp (statusBody idle) ''time'')" "\<not> truthy (getp (statusBody idle) ''Date'')"
    "path (statusBody idle) [''evStatus'', ''batteryPlugin''] = Num 1"
    "truthy (path (statusBody idle) [''evStatus'', ''batteryCharge'']) = False"
    by (simp_all add: idle_def isFull_def statusBody_def path_def)
  have s2: "truthy (getp (statusBody out) ''time'')" "\<not> truthy (getp (statusBody out) ''Date'')"
    "path (statusBody out) [''evStatus'', ''batteryPlugin''] = Num 0"
    "truthy (path (statusBody out) [''evStatus'', ''batteryCharge'']) = True"
    by (simp_all add: out_def isFull_def statusBody_def path_def)
  have s3: "truthy (getp (statusBody new) ''Date'')"
    "path (statusBody new) [''Green'', ''ChargingInformation'', ''ConnectorFastening'', ''State'']
       = Num 2"
    "truthy (path (statusBody new) [''Green'', ''ChargingInformation'', ''Charging'', ''RemainTime''])
       = True"
    by (simp_all add: new_def isFull_def statusBody_def path_def)
  from charging_phase_table [of e idle m1 1 False] m1 s1
  have "getp (Obj m1) ''ev_charging_state'' = Str ''plugged_in''"
    by simp
  moreover from charging_phase_table [of e out m2 0 True] m2 s2
  have "getp (Obj m2) ''ev_charging_state'' = Str ''plugged_out''"
    by simp
  moreover from charging_phase_table [of e new m3 2 True] m3 s3
  have "getp (Obj m3) ''ev_charging_state'' = Str ''plugged_in_charging''"
    by simp
  ultimately show ?thesis
    using m1 m2 m3 unfolding e_def idle_def out_def new_def by blast
qed

text \<open>
  C5: \<^verbatim>\<open>closed_locked\<close> is to be false when a door of the \<^verbatim>\<open>doorOpen\<close> map
  reports open. The reduce over the doors starts from \<^verbatim>\<open>true\<close> and combines with
  \<^verbatim>\<open>||\<close>, so it is \<^verbatim>\<open>true\<close> whatever the doors report: with the lock engaged,
  trunk and hood closed and the front left door open the record says
  \<^verbatim>\<open>closed_locked\<close>.
\<close>

theorem open_door_closed_locked:
  "\<exists>m. mapStatus (quiet (\<lambda>k. Undefined))
     (Obj [(''time'', Str ''20250101''), (''doorLock'', Bool True), (''trunkOpen'', Bool False),
           (''hoodOpen'', Bool False),
           (''doorOpen'', Obj [(''frontLeft'', Num 1), (''frontRight'', Num 0),
                               (''backLeft'', Num 0), (''backRight'', Num 0)])]) = Inr m \<and>
       getp (Obj m) ''closed_locked'' = Bool True"
  by (simp add: eval_defs)


text \<open>
  C9: \<^verbatim>\<open>mapStatus\<close> is to return an object for every payload of one of the
  three shapes, also when \<^verbatim>\<open>airTemp\<close>, \<^verbatim>\<open>doorOpen\<close> or \<^verbatim>\<open>DTE\<close> is
  missing. Among the guarded reads of the function these three are not guarded:
  an old type status with the climate control on and no \<^verbatim>\<open>airTemp\<close>, one with
  the lock engaged and no \<^verbatim>\<open>doorOpen\<close>, and a new type status with a
  \<^verbatim>\<open>FuelSystem\<close> and no \<^verbatim>\<open>DTE\<close> each end in a TypeError, which rejects the
  promise.
\<close>

theorem mapStatus_unguarded_reads_throw:
  "mapStatus (quiet (\<lambda>k. Undefined)) (Obj [(''time'', Str ''20250101''), (''airCtrlOn'', Bool True)])
     = Inl TypeError \<and>
   mapStatus (quiet (\<lambda>k. Undefined)) (Obj [(''time'', Str ''20250101''), (''doorLock'', Bool True)])
     = Inl TypeError \<and>
   mapStatus (quiet (\<lambda>k. Undefined))
     (Obj [(''Date'', Str ''20250101''),
           (''Location'', Obj [(''GeoCoord'', Obj [(''Latitude'', Num 52), (''Longitude'', Num 5)])]),
           (''Drivetrain'', Obj [(''FuelSystem'', Obj [])])])
     = Inl TypeError"
  by (simp add: eval_defs)

end
